(* ===== verification/Prelude.thy ===== *)
theory Prelude
  imports Main "HOL-Library.Sublist"
begin

text \<open>
  Shared vocabulary of the img2panorama development: the fact collections the
  component theories feed, and the generic lemmas on lists of optional values and on
  association lists that the models of \<open>src/main.py\<close> share. A Python list of
  \<open>cv2.imread\<close> results is an \<open>'a option list\<close> (\<open>None\<close> for Python's
  \<open>None\<close>); a directory listing is an association list from names to entries, kept
  in listing order.
\<close>

named_theorems model_simps
  \<open>evaluation rules of the program model, used to run it on concrete inputs\<close>
named_theorems effect_simps
  \<open>frame rules: what an operation of the model leaves unchanged\<close>

type_synonym 'v alist = "(string \<times> 'v) list"

text \<open>
  \<open>put_entry\<close> replaces the value of an existing key where it stands, and appends a
  new key at the end: the way a file overwritten in place keeps its directory slot and
  a new file is listed after the existing ones.
\<close>

fun put_entry :: "string \<Rightarrow> 'v \<Rightarrow> 'v alist \<Rightarrow> 'v alist" where
  "put_entry k v [] = [(k, v)]"
| "put_entry k v ((k', v') # es) =
     (if k' = k then (k, v) # es else (k', v') # put_entry k v es)"

section \<open>Lists of optional values\<close>

text \<open>
  Python's \<open>any(x is None for x in xs)\<close> is \<open>list_ex (\<lambda>x. x = None) xs\<close>; the
  library's \<open>those\<close> is the abstract reading "every element is present".
\<close>

lemma list_ex_None_iff [simp]: "list_ex (\<lambda>x. x = None) xs \<longleftrightarrow> None \<in> set xs"
  by (induction xs) auto

lemma those_Some_iff: "those xs = Some ys \<longleftrightarrow> xs = map Some ys"
proof (induction xs arbitrary: ys)
  case Nil
  then show ?case by auto
next
  case (Cons x xs)
  then show ?case by (cases x) (auto split: option.splits)
qed

lemma map_the_Some [simp]: "None \<notin> set xs \<Longrightarrow> map (Some \<circ> the) xs = xs"
  by (induction xs) auto

lemma find_Some_set: "find P xs = Some x \<Longrightarrow> x \<in> set xs \<and> P x"
  by (induction xs) (auto split: if_splits)

lemma length_map_the [simp]: "length (map the xs) = length xs"
  by simp

section \<open>Association lists in listing order\<close>

lemma map_of_put_entry [simp]: "map_of (put_entry k v es) = (map_of es)(k \<mapsto> v)"
  by (induction es) (auto simp: fun_upd_twist)

lemma keys_put_entry [simp]:
  "fst ` set (put_entry k v es) = insert k (fst ` set es)"
proof -
  have "dom (map_of (put_entry k v es)) = insert k (dom (map_of es))"
    by simp
  then show ?thesis by (simp only: dom_map_of_conv_image_fst)
qed

lemma distinct_put_entry [simp]:
  "distinct (map fst es) \<Longrightarrow> distinct (map fst (put_entry k v es))"
proof (induction es)
  case Nil
  then show ?case by simp
next
  case (Cons e es)
  have "fst e \<notin> fst ` set (put_entry k v es)" if "fst e \<noteq> k"
    using Cons.prems that by simp
  with Cons show ?case by (cases e) auto
qed

lemma set_put_entry: "set (put_entry k v es) \<subseteq> insert (k, v) (set es)"
  by (induction es) (auto split: if_splits)

lemma put_entry_existing:
  "map_of es k \<noteq> None \<Longrightarrow> map fst (put_entry k v es) = map fst es"
  by (induction es) auto

lemma put_entry_new:
  "map_of es k = None \<Longrightarrow> put_entry k v es = es @ [(k, v)]"
  by (induction es) (auto split: if_splits)

lemma put_entry_idem [simp]: "put_entry k v (put_entry k v es) = put_entry k v es"
  by (induction es) auto

section \<open>Deterministic relations\<close>

text \<open>
  Two runs of a deterministic step relation from the same state that both end in a
  state without successor end in the same state.
\<close>

lemma star_det_terminal:
  assumes det: "\<And>x y z. r x y \<Longrightarrow> r x z \<Longrightarrow> y = z"
    and ab: "r\<^sup>*\<^sup>* a b" and ac: "r\<^sup>*\<^sup>* a c"
    and b: "\<And>d. \<not> r b d" and c: "\<And>d. \<not> r c d"
  shows "b = c"
  using ab ac b
proof (induction rule: converse_rtranclp_induct)
  case base
  from base.prems(1) show ?case
    by (cases rule: converse_rtranclpE) (auto simp: c base.prems(2))
next
  case (step a a')
  note IH = step.IH and aa' = step.hyps(1) and bb = step.prems(2)
  from step.prems(1) show ?case
  proof (cases rule: converse_rtranclpE)
    case base
    with aa' c show ?thesis by blast
  next
    case (step a'')
    with det aa' have "a'' = a'" by blast
    with step IH bb show ?thesis by blast
  qed
qed

end
