(* ===== verification/Py_Str.thy ===== *)
theory Py_Str
  imports Prelude
begin

text \<open>
  The Python string and path operations that \<open>scan_images\<close> (\<open>src/main.py\<close>,
  lines 40--51) is built from: \<open>str.lower\<close>, \<open>str.endswith\<close> with a tuple of
  suffixes, and POSIX \<open>os.path.join\<close> / \<open>os.path.split\<close>. Strings are byte strings
  (\<open>char list\<close>); \<open>str.lower\<close> is modelled on the ASCII range, which is what
  decides a match against the ASCII extensions \<open>.jpg\<close>, \<open>.jpeg\<close>, \<open>.png\<close>.
  Beside them, \<open>str\<close> of an integer, which the f-strings of the log messages use, and
  its inverse on digit strings; and \<open>os.path.splitext\<close>, which the program does not
  call, as the reference for a name's extension.
\<close>

section \<open>\<open>str.lower\<close> and \<open>str.endswith\<close>\<close>

definition py_lower_char :: "char \<Rightarrow> char" where
  "py_lower_char c =
     (let n = (of_char c :: nat) in if 65 \<le> n \<and> n \<le> 90 then char_of (n + 32) else c)"

definition py_lower :: "string \<Rightarrow> string" where
  "py_lower s = map py_lower_char s"

text \<open>\<open>s.endswith(suffix)\<close>: the last \<open>len(suffix)\<close> characters of \<open>s\<close> are \<open>suffix\<close>.\<close>

definition py_endswith :: "string \<Rightarrow> string \<Rightarrow> bool" where
  "py_endswith s suf = (length suf \<le> length s \<and> drop (length s - length suf) s = suf)"

text \<open>\<open>s.endswith((a, b, ...))\<close>: true when any of the suffixes matches.\<close>

definition py_endswith_any :: "string \<Rightarrow> string list \<Rightarrow> bool" where
  "py_endswith_any s sufs = list_ex (py_endswith s) sufs"

section \<open>POSIX \<open>os.path.join\<close> and \<open>os.path.split\<close>\<close>

abbreviation slash :: char where
  "slash \<equiv> CHR ''/''"

text \<open>
  \<open>posixpath.join(a, b)\<close>: an absolute \<open>b\<close> replaces \<open>a\<close>; otherwise \<open>b\<close> is
  appended, with a separator unless \<open>a\<close> is empty or already ends in one.
\<close>

definition posix_join :: "string \<Rightarrow> string \<Rightarrow> string" where
  "posix_join a b =
     (if b \<noteq> [] \<and> hd b = slash then b
      else if a = [] \<or> last a = slash then a @ b
      else a @ slash # b)"

text \<open>
  \<open>posixpath.split(p)\<close>: the tail is what follows the last separator; the head is
  what precedes it, with trailing separators removed unless it consists of separators
  only.
\<close>

definition rstrip_slash :: "string \<Rightarrow> string" where
  "rstrip_slash s = rev (dropWhile (\<lambda>c. c = slash) (rev s))"

definition posix_split :: "string \<Rightarrow> string \<times> string" where
  "posix_split p =
     (let tl = rev (takeWhile (\<lambda>c. c \<noteq> slash) (rev p));
          hd = take (length p - length tl) p
      in (if hd \<noteq> [] \<and> (\<exists>c \<in> set hd. c \<noteq> slash) then rstrip_slash hd else hd, tl))"

text \<open>
  \<open>os.path.splitext\<close> (\<open>genericpath._splitext\<close> with separator \<open>/\<close>): the
  extension is the text from the last dot, provided that dot comes after the last
  separator and after some character of the base name other than a dot; a name whose
  base is only dots before its last dot (\<open>.png\<close>, \<open>..jpg\<close>) has no extension.
  The program does not call it; it is the reference for what a Python file name's
  extension is.
\<close>

abbreviation dot :: char where "dot \<equiv> CHR ''.''"

definition py_splitext :: "string \<Rightarrow> string \<times> string" where
  "py_splitext p =
     (let ext = rev (takeWhile (\<lambda>c. c \<noteq> dot) (rev p));
          stem = take (length p - length ext - 1) p;
          base = rev (takeWhile (\<lambda>c. c \<noteq> slash) (rev stem))
      in if dot \<in> set p \<and> slash \<notin> set ext \<and> list_ex (\<lambda>c. c \<noteq> dot) base
         then (stem, dot # ext) else (p, []))"

section \<open>\<open>str\<close> of an integer, and reading it back\<close>

text \<open>
  An f-string shows an \<open>int\<close> with \<open>str\<close>: its decimal digits, most significant
  first, no leading zeros, a minus sign before a negative value. \<open>parse_nat\<close> and
  \<open>parse_int\<close> read such a text back; they are what a reader of the log does, not
  code of the program.
\<close>

fun py_str_nat :: "nat \<Rightarrow> string" where
  "py_str_nat n =
     (if n < 10 then [char_of (48 + n)] else py_str_nat (n div 10) @ [char_of (48 + n mod 10)])"

definition py_str_int :: "int \<Rightarrow> string" where
  "py_str_int i = (if i < 0 then CHR ''-'' # py_str_nat (nat (- i)) else py_str_nat (nat i))"

definition is_digit :: "char \<Rightarrow> bool" where
  "is_digit c \<longleftrightarrow> 48 \<le> (of_char c :: nat) \<and> (of_char c :: nat) \<le> 57"

definition digits_value :: "string \<Rightarrow> nat" where
  "digits_value s = foldl (\<lambda>acc c. 10 * acc + (of_char c - 48)) 0 s"

definition parse_nat :: "string \<Rightarrow> nat option" where
  "parse_nat s = (if s \<noteq> [] \<and> list_all is_digit s then Some (digits_value s) else None)"

definition parse_int :: "string \<Rightarrow> int option" where
  "parse_int s =
     (case s of
        c # r \<Rightarrow> if c = CHR ''-'' then map_option (\<lambda>n. - int n) (parse_nat r) else map_option int (parse_nat s)
      | [] \<Rightarrow> None)"

section \<open>Properties\<close>

lemma py_lower_char_idem [simp]: "py_lower_char (py_lower_char c) = py_lower_char c"
proof -
  have "(of_char c :: nat) < 256" by (rule nat_of_char_less_256)
  then show ?thesis
    by (cases "65 \<le> (of_char c :: nat) \<and> (of_char c :: nat) \<le> 90")
      (auto simp: py_lower_char_def Let_def)
qed

lemma length_py_lower [simp]: "length (py_lower s) = length s"
  by (simp add: py_lower_def)

lemma py_lower_append [simp]: "py_lower (a @ b) = py_lower a @ py_lower b"
  by (simp add: py_lower_def)

lemma py_endswith_suffix: "py_endswith s suf \<longleftrightarrow> suffix suf s"
proof
  assume "py_endswith s suf"
  then have "s = take (length s - length suf) s @ suf"
    unfolding py_endswith_def by (metis append_take_drop_id)
  then show "suffix suf s" unfolding suffix_def by blast
next
  assume "suffix suf s"
  then obtain zs where "s = zs @ suf" by (auto simp: suffix_def)
  then show "py_endswith s suf" by (simp add: py_endswith_def)
qed

lemma py_endswith_any_iff: "py_endswith_any s sufs \<longleftrightarrow> (\<exists>e \<in> set sufs. suffix e s)"
  by (simp add: py_endswith_any_def list_ex_iff py_endswith_suffix)

lemma takeWhile_rev_no_slash:
  "slash \<notin> set b \<Longrightarrow> takeWhile (\<lambda>c. c \<noteq> slash) (rev b @ slash # rev a) = rev b"
  by (induction b rule: rev_induct) auto

lemma rstrip_slash_idem [simp]: "rstrip_slash (rstrip_slash s) = rstrip_slash s"
proof -
  have "dropWhile (\<lambda>c. c = slash) (dropWhile (\<lambda>c. c = slash) xs) = dropWhile (\<lambda>c. c = slash) xs"
    for xs :: string
    by (induction xs) auto
  then show ?thesis by (simp add: rstrip_slash_def)
qed

lemma rstrip_slash_snoc_slash [simp]: "rstrip_slash (a @ [slash]) = rstrip_slash a"
  by (simp add: rstrip_slash_def)

lemma rstrip_slash_no_trailing: "a \<noteq> [] \<Longrightarrow> last a \<noteq> slash \<Longrightarrow> rstrip_slash a = a"
proof -
  assume "a \<noteq> []" "last a \<noteq> slash"
  then obtain a' x where "a = a' @ [x]" and "x \<noteq> slash"
    by (metis append_butlast_last_id)
  then show ?thesis by (simp add: rstrip_slash_def)
qed

lemma posix_split_slash:
  assumes "slash \<notin> set b"
  shows "posix_split (a @ slash # b) =
    (if \<exists>c \<in> set (a @ [slash]). c \<noteq> slash then rstrip_slash (a @ [slash]) else a @ [slash], b)"
proof -
  have tl: "rev (takeWhile (\<lambda>c. c \<noteq> slash) (rev (a @ slash # b))) = b"
    using assms takeWhile_rev_no_slash [of b a] by simp
  have hd: "take (length (a @ slash # b) - length b) (a @ slash # b) = a @ [slash]"
    by simp
  from tl hd show ?thesis by (simp add: posix_split_def Let_def)
qed

lemma posix_join_valid:
  assumes "d \<noteq> []" "f \<noteq> []" "slash \<notin> set f"
  obtains a where "posix_join d f = a @ slash # f"
    "a @ [slash] = d \<or> (a = d \<and> last a \<noteq> slash)"
proof (cases "last d = slash")
  case True
  with assms have "posix_join d f = butlast d @ slash # f" "butlast d @ [slash] = d"
    by (auto simp: posix_join_def dest: hd_in_set) (metis append_butlast_last_id)+
  then show ?thesis by (auto intro: that)
next
  case False
  with assms have "posix_join d f = d @ slash # f"
    by (auto simp: posix_join_def dest: hd_in_set)
  with False assms(1) show ?thesis by (intro that) auto
qed

lemma posix_split_tail_no_slash: "slash \<notin> set (snd (posix_split p))"
proof -
  have "\<forall>c \<in> set (takeWhile (\<lambda>c. c \<noteq> slash) (rev p)). c \<noteq> slash"
    by (auto dest: set_takeWhileD)
  then show ?thesis by (auto simp: posix_split_def Let_def)
qed

subsection \<open>Decimal digits\<close>

declare py_str_nat.simps [simp del]

lemma of_char_digit [simp]: "d < 10 \<Longrightarrow> (of_char (char_of (48 + d) :: char) :: nat) = 48 + d"
  by (simp add: of_char_of)

lemma py_str_nat_digits: "list_all is_digit (py_str_nat n) \<and> py_str_nat n \<noteq> []"
proof (induction n rule: py_str_nat.induct)
  case (1 n)
  have d: "is_digit (char_of (48 + d)) " if "d < 10" for d :: nat
    using that by (simp add: is_digit_def)
  show ?case
    using 1 d [of n] d [of "n mod 10"] by (simp add: py_str_nat.simps [of n])
qed

lemma digits_value_snoc: "digits_value (s @ [c]) = 10 * digits_value s + (of_char c - 48)"
  by (simp add: digits_value_def)

lemma digits_value_py_str_nat: "digits_value (py_str_nat n) = n"
proof (induction n rule: py_str_nat.induct)
  case (1 n)
  show ?case
  proof (cases "n < 10")
    case True then show ?thesis by (subst py_str_nat.simps) (simp add: digits_value_def)
  next
    case False
    then have "digits_value (py_str_nat n) = 10 * (n div 10) + n mod 10"
      using 1 by (subst py_str_nat.simps) (simp add: digits_value_snoc)
    then show ?thesis by simp
  qed
qed

lemma parse_nat_py_str_nat [simp]: "parse_nat (py_str_nat n) = Some n"
  using py_str_nat_digits [of n] by (simp add: parse_nat_def digits_value_py_str_nat)

lemma py_str_nat_not_minus: "hd (py_str_nat n) \<noteq> CHR ''-''"
  using py_str_nat_digits [of n] by (cases "py_str_nat n") (auto simp: is_digit_def)

lemma parse_int_py_str_int [simp]: "parse_int (py_str_int i) = Some i"
proof (cases "i < 0")
  case True then show ?thesis by (simp add: py_str_int_def parse_int_def)
next
  case False
  obtain c r where cr: "py_str_nat (nat i) = c # r" and c: "c \<noteq> CHR ''-''"
    using py_str_nat_digits [of "nat i"] py_str_nat_not_minus [of "nat i"] by (cases "py_str_nat (nat i)") auto
  have "parse_nat (c # r) = Some (nat i)" using cr by (metis parse_nat_py_str_nat)
  with False cr c show ?thesis by (simp add: py_str_int_def parse_int_def)
qed

subsection \<open>\<open>os.path.splitext\<close> and lower case\<close>

lemma py_splitext_no_dot: "dot \<notin> set p \<Longrightarrow> py_splitext p = (p, [])"
  by (simp add: py_splitext_def)

lemma takeWhile_not_dot [simp]: "dot \<notin> set x \<Longrightarrow> takeWhile (\<lambda>c. c \<noteq> dot) (rev x @ dot # r) = rev x"
  by (subst takeWhile_append2) auto

lemma py_splitext_split:
  assumes "dot \<notin> set x"
  shows "py_splitext (u @ dot # x) =
    (if slash \<notin> set x \<and> list_ex (\<lambda>c. c \<noteq> dot) (rev (takeWhile (\<lambda>c. c \<noteq> slash) (rev u)))
     then (u, dot # x) else (u @ dot # x, []))"
  using assms by (simp add: py_splitext_def Let_def)

lemma last_dot_split:
  assumes "dot \<in> set p"
  obtains u x where "p = u @ dot # x" "dot \<notin> set x"
proof -
  from assms have "dot \<in> set (rev p)" by simp
  from split_list_first [OF this] obtain x' u' where r: "rev p = x' @ dot # u'" and x': "dot \<notin> set x'"
    by blast
  from r have "p = rev u' @ dot # rev x'" by (metis rev_append rev_rev_ident rev.simps(2) append_assoc append_Cons append_Nil)
  moreover from x' have "dot \<notin> set (rev x')" by simp
  ultimately show thesis by (rule that)
qed

lemma py_lower_char_eq_punct:
  assumes "d = dot \<or> d = slash"
  shows "py_lower_char c = d \<longleftrightarrow> c = d"
proof -
  have "(of_char c :: nat) < 256" by (rule nat_of_char_less_256)
  with assms show ?thesis
    by (cases "65 \<le> (of_char c :: nat) \<and> (of_char c :: nat) \<le> 90")
       (auto simp: py_lower_char_def Let_def char_of_eq_iff take_bit_nat_eq_self)
qed

lemma py_lower_char_dot [simp]: "py_lower_char c = dot \<longleftrightarrow> c = dot"
  and py_lower_char_slash [simp]: "py_lower_char c = slash \<longleftrightarrow> c = slash"
  by (simp_all add: py_lower_char_eq_punct)

lemma py_lower_char_dot_self [simp]: "py_lower_char dot = dot"
  by (simp add: py_lower_char_eq_punct)

lemma punct_in_py_lower [simp]:
  "dot \<in> set (py_lower p) \<longleftrightarrow> dot \<in> set p" "slash \<in> set (py_lower p) \<longleftrightarrow> slash \<in> set p"
proof -
  have "d \<in> py_lower_char ` set p \<longleftrightarrow> (\<exists>c \<in> set p. py_lower_char c = d)" for d by auto
  then show "dot \<in> set (py_lower p) \<longleftrightarrow> dot \<in> set p" "slash \<in> set (py_lower p) \<longleftrightarrow> slash \<in> set p"
    by (simp_all add: py_lower_def)
qed

lemma py_splitext_lower: "py_splitext (py_lower p) = map_prod py_lower py_lower (py_splitext p)"
proof (cases "dot \<in> set p")
  case True
  then obtain u x where p: "p = u @ dot # x" and x: "dot \<notin> set x" by (rule last_dot_split)
  have l: "py_lower p = py_lower u @ dot # py_lower x" by (simp add: p py_lower_def)
  have x': "dot \<notin> set (py_lower x)" using x by simp
  have e: "list_ex (\<lambda>c. c \<noteq> dot) (rev (takeWhile (\<lambda>c. c \<noteq> slash) (rev (py_lower u)))) \<longleftrightarrow>
                 list_ex (\<lambda>c. c \<noteq> dot) (rev (takeWhile (\<lambda>c. c \<noteq> slash) (rev u)))"
    by (simp add: py_lower_def rev_map takeWhile_map comp_def list_ex_iff)
  have s1: "py_splitext (py_lower p) =
    (if slash \<notin> set (py_lower x) \<and> list_ex (\<lambda>c. c \<noteq> dot) (rev (takeWhile (\<lambda>c. c \<noteq> slash) (rev (py_lower u))))
     then (py_lower u, dot # py_lower x) else (py_lower p, []))"
    unfolding l using x' by (rule py_splitext_split)
  have s2: "py_splitext p =
    (if slash \<notin> set x \<and> list_ex (\<lambda>c. c \<noteq> dot) (rev (takeWhile (\<lambda>c. c \<noteq> slash) (rev u)))
     then (u, dot # x) else (p, []))"
    unfolding p using x by (rule py_splitext_split)
  have "slash \<in> set (py_lower x) \<longleftrightarrow> slash \<in> set x" by simp
  with s1 s2 e show ?thesis by (simp add: py_lower_def)
next
  case False
  then have "dot \<notin> set (py_lower p)" by simp
  with False show ?thesis by (simp add: py_splitext_no_dot py_lower_def)
qed

lemma suffix_extension_iff:
  assumes "dot \<notin> set x" "slash \<notin> set L"
  shows "suffix (dot # x) L \<longleftrightarrow> snd (py_splitext L) = dot # x \<or> (\<exists>k. L = replicate k dot @ dot # x)"
proof
  assume "suffix (dot # x) L"
  then obtain u where L: "L = u @ dot # x" by (auto simp: suffix_def)
  have sl: "slash \<notin> set u" "slash \<notin> set x" using assms(2) L by auto
  then have tw: "takeWhile (\<lambda>c. c \<noteq> slash) (rev u) = rev u" by (auto simp: takeWhile_eq_all_conv)
  show "snd (py_splitext L) = dot # x \<or> (\<exists>k. L = replicate k dot @ dot # x)"
  proof (cases "list_ex (\<lambda>c. c \<noteq> dot) u")
    case True
    then have "snd (py_splitext L) = dot # x"
      unfolding L using assms(1) sl(2) by (simp add: py_splitext_split tw list_ex_iff)
    then show ?thesis ..
  next
    case False
    then have "u = replicate (length u) dot" by (simp add: list_ex_iff replicate_length_same)
    with L show ?thesis by blast
  qed
next
  assume "snd (py_splitext L) = dot # x \<or> (\<exists>k. L = replicate k dot @ dot # x)"
  then show "suffix (dot # x) L"
  proof
    assume s: "snd (py_splitext L) = dot # x"
    then have "dot \<in> set L" by (rule contrapos_pp) (simp add: py_splitext_no_dot)
    then obtain u x' where L: "L = u @ dot # x'" and x': "dot \<notin> set x'" by (rule last_dot_split)
    with s have "x' = x" by (simp add: py_splitext_split split: if_splits)
    with L show ?thesis by (simp add: suffix_def)
  qed (auto simp: suffix_def)
qed

end
