(* ===== verification/World.thy ===== *)
theory World
  imports Py_Str
begin

text \<open>
  The environment \<open>src/main.py\<close> acts on, and the state a run threads through it.
  \<^item> The file system: directories, keyed by path, each an ordered listing of named
    entries (files with their bytes, or subdirectories), a write and a read permission; the
    process's working directory. \<open>os.listdir\<close>, \<open>cv2.imread\<close> and \<open>cv2.imwrite\<close>
    are operations on it.
  \<^item> The cv2 capability: decoding and encoding of raster images and the stitching
    engine behind \<open>cv2.Stitcher_create().stitch\<close>. It is a record of functions over
    the type variables \<open>'b\<close> (file contents) and \<open>'img\<close> (decoded rasters): the
    program's lemmas hold for every engine and codec, and a concrete instance is a
    test double.
  \<^item> The run state \<open>'b rt\<close>: the world, the log records \<open>logging\<close> emits, and the
    trace of external calls (the spy of the specification's testable properties).
\<close>

section \<open>File system\<close>

datatype 'b node = File 'b | Dir

record 'b directory =
  entries :: "'b node alist"
  writable :: bool
  readable :: bool

record 'b world =
  cwd :: string
  dirs :: "'b directory alist"

text \<open>The exceptions \<open>os.listdir\<close> raises here, with the path it was given.\<close>

datatype os_error = FileNotFoundError string | NotADirectoryError string | PermissionError string

text \<open>
  The directory a path names: trailing separators dropped, \<open>.\<close> and the empty head
  of a bare file name are the working directory. Other aliasing (\<open>..\<close>, symbolic
  links, \<open>a/./b\<close>) is not resolved: such paths name distinct keys.
\<close>

definition dir_key :: "'b world \<Rightarrow> string \<Rightarrow> string" where
  "dir_key w d =
     (let d' = rstrip_slash d in
      if d' = [] then (if d = [] then cwd w else ''/'')
      else if d' = ''.'' then cwd w else d')"

definition lookup_path :: "'b world \<Rightarrow> string \<Rightarrow> 'b node option" where
  "lookup_path w p =
     (case posix_split p of (h, t) \<Rightarrow>
        (case map_of (dirs w) (dir_key w h) of
          None \<Rightarrow> None
        | Some dr \<Rightarrow> map_of (entries dr) t))"

text \<open>
  \<open>os.listdir(d)\<close>: the names in listing order, or the exception it raises:
  \<open>PermissionError\<close> (\<open>EACCES\<close>) when the directory may not be read,
  \<open>NotADirectoryError\<close> (\<open>ENOTDIR\<close>) when \<open>d\<close>, trailing separators dropped,
  names a regular file, \<open>FileNotFoundError\<close> (\<open>ENOENT\<close>) when it names nothing.
\<close>

definition listdir :: "'b world \<Rightarrow> string \<Rightarrow> os_error + string list" where
  "listdir w d =
     (if d = [] then Inl (FileNotFoundError d)
      else case map_of (dirs w) (dir_key w d) of
        Some dr \<Rightarrow> if readable dr then Inr (map fst (entries dr)) else Inl (PermissionError d)
      | None \<Rightarrow>
          (case lookup_path w (rstrip_slash d) of
             Some (File _) \<Rightarrow> Inl (NotADirectoryError d)
           | _ \<Rightarrow> Inl (FileNotFoundError d)))"

section \<open>The cv2 capability\<close>

record ('b, 'img) cv2 =
  decode :: "'b \<Rightarrow> 'img option"
  encode :: "string \<Rightarrow> 'img \<Rightarrow> 'b option"
  stitch :: "'img list \<Rightarrow> int \<times> 'img option"

text \<open>\<open>cv2.imread(p)\<close>: \<open>None\<close> unless \<open>p\<close> is a file whose bytes decode.\<close>

definition imread :: "('b, 'img) cv2 \<Rightarrow> 'b world \<Rightarrow> string \<Rightarrow> 'img option" where
  "imread cv w p = (case lookup_path w p of Some (File b) \<Rightarrow> decode cv b | _ \<Rightarrow> None)"

text \<open>
  \<open>cv2.imwrite(p, img)\<close>: encode by the file name, then create or overwrite the
  entry in its directory. Creating a file needs the directory's write permission;
  overwriting an existing one needs only the file's own, which is not modelled (granted),
  as in \<open>open(p, O_WRONLY | O_CREAT | O_TRUNC)\<close>. It returns \<open>False\<close> and changes
  nothing when the directory is missing, the name is empty or a directory, the encoder
  fails, or the file is new and the directory is read-only.
\<close>

definition imwrite :: "('b, 'img) cv2 \<Rightarrow> string \<Rightarrow> 'img \<Rightarrow> 'b world \<Rightarrow> bool \<times> 'b world" where
  "imwrite cv p img w =
     (case posix_split p of (h, t) \<Rightarrow>
        (case map_of (dirs w) (dir_key w h) of
          None \<Rightarrow> (False, w)
        | Some dr \<Rightarrow>
            (case encode cv p img of
              None \<Rightarrow> (False, w)
            | Some b \<Rightarrow>
                if t = [] \<or> map_of (entries dr) t = Some Dir \<or>
                   (map_of (entries dr) t = None \<and> \<not> writable dr) then (False, w)
                else (True, w\<lparr>dirs := put_entry (dir_key w h)
                        (dr\<lparr>entries := put_entry t (File b) (entries dr)\<rparr>) (dirs w)\<rparr>))))"

section \<open>Run state: world, log, call trace\<close>

datatype level = INFO | WARNING | ERROR

text \<open>The log messages of \<open>src/main.py\<close>, with the values their f-strings show.\<close>

datatype msg =
    MsgStitching nat
  | MsgLoadFailed
  | MsgStitchFailed int
  | MsgPanoramaCreated
  | MsgSaved string
  | MsgNoImageFiles
  | MsgNoImagesExit
  | MsgPanoramaFailed

datatype call =
    CallListdir string
  | CallImread string
  | CallStitch nat
  | CallImwrite string

record 'b rt =
  world :: "'b world"
  logs :: "(level \<times> msg) list"
  calls :: "call list"

definition emit :: "level \<Rightarrow> msg \<Rightarrow> 'b rt \<Rightarrow> 'b rt" where
  "emit l m s = s\<lparr>logs := logs s @ [(l, m)]\<rparr>"

definition record_calls :: "call list \<Rightarrow> 'b rt \<Rightarrow> 'b rt" where
  "record_calls cs s = s\<lparr>calls := calls s @ cs\<rparr>"

subsection \<open>Well-formed worlds\<close>

text \<open>
  Every directory lists each name once, and every name is a proper file name
  (non-empty, without a separator), as in a real directory.
\<close>

definition valid_name :: "string \<Rightarrow> bool" where
  "valid_name n \<longleftrightarrow> n \<noteq> [] \<and> slash \<notin> set n"

definition wf_dir :: "'b directory \<Rightarrow> bool" where
  "wf_dir dr \<longleftrightarrow> distinct (map fst (entries dr)) \<and> list_all valid_name (map fst (entries dr))"

definition wf_world :: "'b world \<Rightarrow> bool" where
  "wf_world w \<longleftrightarrow> distinct (map fst (dirs w)) \<and> list_all wf_dir (map snd (dirs w))"

subsection \<open>Test doubles\<close>

text \<open>
  A concrete codec and engine over \<open>nat\<close> contents and rasters, used by the witnesses:
  content \<open>0\<close> does not decode, encoding stores the raster itself, and the engine
  needs two images (status 1, \<open>ERR_NEED_MORE_IMGS\<close>, otherwise) and returns their sum.
  The world has a photo directory with two images and a text file, a directory with one
  corrupt image, a directory with a single image, a directory with two images and a
  subdirectory named like an image, and the empty working directory.
\<close>

definition demo_cv :: "(nat, nat) cv2" where
  "demo_cv =
     \<lparr>decode = (\<lambda>b. if b = 0 then None else Some b),
      encode = (\<lambda>p img. Some img),
      stitch = (\<lambda>imgs. if length imgs < 2 then (1, None) else (0, Some (sum_list imgs)))\<rparr>"

definition demo_world :: "nat world" where
  "demo_world =
     \<lparr>cwd = ''/home'',
      dirs = [(''/photos'', \<lparr>entries = [(''a.jpg'', File 1), (''B.PNG'', File 2), (''c.txt'', File 3)],
                               writable = True, readable = True\<rparr>),
              (''/broken'', \<lparr>entries = [(''x.jpg'', File 0), (''y.jpg'', File 5)], writable = True, readable = True\<rparr>),
              (''/single'', \<lparr>entries = [(''a.jpg'', File 1)], writable = True, readable = True\<rparr>),
              (''/mixed'', \<lparr>entries = [(''a.jpg'', File 1), (''b.jpg'', File 2), (''thumbs.jpg'', Dir)],
                             writable = True, readable = True\<rparr>),
              (''/private'', \<lparr>entries = [(''a.jpg'', File 1)], writable = True, readable = False\<rparr>),
              (''/home'', \<lparr>entries = [], writable = True, readable = True\<rparr>)]\<rparr>"

definition demo_rt :: "nat rt" where
  "demo_rt = \<lparr>world = demo_world, logs = [], calls = []\<rparr>"

text \<open>A run state whose working directory itself holds two images.\<close>

definition demo_cwd_rt :: "nat rt" where
  "demo_cwd_rt =
     \<lparr>world = \<lparr>cwd = ''/home'',
               dirs = [(''/home'', \<lparr>entries = [(''a.jpg'', File 1), (''b.jpg'', File 2)], writable = True, readable = True\<rparr>)]\<rparr>,
      logs = [], calls = []\<rparr>"

section \<open>Properties of the operations\<close>

lemma emit_frame [simp, effect_simps]:
  "world (emit l m s) = world s" "calls (emit l m s) = calls s"
  "logs (emit l m s) = logs s @ [(l, m)]"
  by (simp_all add: emit_def)

lemma record_calls_frame [simp, effect_simps]:
  "world (record_calls cs s) = world s" "logs (record_calls cs s) = logs s"
  "calls (record_calls cs s) = calls s @ cs"
  by (simp_all add: record_calls_def)

lemma record_calls_append [simp]: "record_calls b (record_calls a s) = record_calls (a @ b) s"
  by (simp add: record_calls_def)

section \<open>imwrite, path resolution and well-formedness\<close>

lemma imwrite_cases:
  obtains (unchanged) "imwrite cv p img w = (False, w)"
  | (written) h t dr b where "posix_split p = (h, t)" "map_of (dirs w) (dir_key w h) = Some dr"
      "encode cv p img = Some b" "writable dr \<or> map_of (entries dr) t \<noteq> None" "t \<noteq> []"
      "map_of (entries dr) t \<noteq> Some Dir"
      "imwrite cv p img w = (True, w\<lparr>dirs := put_entry (dir_key w h)
          (dr\<lparr>entries := put_entry t (File b) (entries dr)\<rparr>) (dirs w)\<rparr>)"
proof -
  obtain h t where ht: "posix_split p = (h, t)" by fastforce
  show ?thesis
  proof (cases "map_of (dirs w) (dir_key w h)")
    case None
    with ht show ?thesis by (intro unchanged) (simp add: imwrite_def)
  next
    case (Some dr)
    show ?thesis
    proof (cases "encode cv p img")
      case None
      with ht Some show ?thesis by (intro unchanged) (simp add: imwrite_def)
    next
      case (Some b)
      show ?thesis
      proof (cases "t = [] \<or> map_of (entries dr) t = Some Dir \<or> (map_of (entries dr) t = None \<and> \<not> writable dr)")
        case True
        with ht \<open>map_of (dirs w) (dir_key w h) = Some dr\<close> Some show ?thesis
          by (intro unchanged) (simp add: imwrite_def)
      next
        case False
        with ht \<open>map_of (dirs w) (dir_key w h) = Some dr\<close> Some show ?thesis
          by (intro written) (auto simp: imwrite_def)
      qed
    qed
  qed
qed

lemma imwrite_cwd [simp, effect_simps]: "cwd (snd (imwrite cv p img w)) = cwd w"
  by (cases rule: imwrite_cases [of cv p img w]) auto

lemma dir_key_cwd: "cwd w' = cwd w \<Longrightarrow> dir_key w' d = dir_key w d"
  by (simp add: dir_key_def Let_def)

lemma dir_key_Nil: "dir_key w [] = cwd w"
  by (simp add: dir_key_def rstrip_slash_def)

lemma dir_key_rstrip: "rstrip_slash x \<noteq> [] \<Longrightarrow> dir_key w (rstrip_slash x) = dir_key w x"
  by (simp add: dir_key_def Let_def)

lemma dir_key_snoc_slash: "a \<noteq> [] \<Longrightarrow> dir_key w (a @ [slash]) = dir_key w a"
  by (simp add: dir_key_def Let_def)

lemma rstrip_slash_nonempty: "\<exists>c \<in> set x. c \<noteq> slash \<Longrightarrow> rstrip_slash x \<noteq> []"
  by (auto simp: rstrip_slash_def dropWhile_eq_Nil_conv)

text \<open>
  A path built by \<open>os.path.join(d, f)\<close> from a directory and a proper file name
  resolves to the entry \<open>f\<close> of the directory \<open>os.listdir(d)\<close> lists.
\<close>

lemma split_join_key:
  assumes "d \<noteq> []" "valid_name f" "posix_split (posix_join d f) = (h, t)"
  shows "t = f \<and> dir_key w h = dir_key w d"
proof -
  from assms(2) have f: "f \<noteq> []" "slash \<notin> set f" by (auto simp: valid_name_def)
  obtain a where j: "posix_join d f = a @ slash # f"
    and a: "a @ [slash] = d \<or> (a = d \<and> last a \<noteq> slash)"
    using posix_join_valid [OF assms(1) f] by blast
  let ?x = "a @ [slash]"
  have ht: "(h, t) = (if \<exists>c \<in> set ?x. c \<noteq> slash then rstrip_slash ?x else ?x, f)"
    using assms(3) posix_split_slash [OF f(2), of a] j by simp
  have "dir_key w h = dir_key w ?x"
  proof (cases "\<exists>c \<in> set ?x. c \<noteq> slash")
    case True
    then have "rstrip_slash ?x \<noteq> []" by (rule rstrip_slash_nonempty)
    then have "dir_key w (rstrip_slash ?x) = dir_key w ?x" by (rule dir_key_rstrip)
    with True ht show ?thesis by (simp del: rstrip_slash_snoc_slash)
  next
    case False
    with ht show ?thesis by simp
  qed
  moreover have "dir_key w ?x = dir_key w d"
    using a assms(1) by (auto simp: dir_key_snoc_slash)
  ultimately show ?thesis using ht by simp
qed

lemma lookup_path_join:
  assumes "d \<noteq> []" "valid_name f" "map_of (dirs w) (dir_key w d) = Some dr"
  shows "lookup_path w (posix_join d f) = map_of (entries dr) f"
proof -
  obtain h t where ht: "posix_split (posix_join d f) = (h, t)" by fastforce
  with assms(1,2) have "t = f \<and> dir_key w h = dir_key w d" by (rule split_join_key)
  with ht assms(3) show ?thesis by (simp add: lookup_path_def)
qed

lemma imwrite_False: "imwrite cv p img w = (False, w') \<Longrightarrow> w' = w"
  by (cases rule: imwrite_cases [of cv p img w]) auto

lemma imwrite_True:
  assumes "imwrite cv p img w = (True, w')"
  obtains h t dr b where "posix_split p = (h, t)" "map_of (dirs w) (dir_key w h) = Some dr"
    "encode cv p img = Some b" "writable dr \<or> map_of (entries dr) t \<noteq> None"
    "w' = w\<lparr>dirs := put_entry (dir_key w h) (dr\<lparr>entries := put_entry t (File b) (entries dr)\<rparr>) (dirs w)\<rparr>"
  using assms by (cases rule: imwrite_cases [of cv p img w]) auto

lemma wf_world_upd:
  "wf_world w \<Longrightarrow> wf_dir dr \<Longrightarrow> wf_world (w\<lparr>dirs := put_entry k dr (dirs w)\<rparr>)"
  unfolding wf_world_def by (auto simp: list_all_iff dest: set_put_entry [THEN subsetD])

lemma wf_dir_put_entry:
  "wf_dir dr \<Longrightarrow> valid_name t \<Longrightarrow> wf_dir (dr\<lparr>entries := put_entry t v (entries dr)\<rparr>)"
  unfolding wf_dir_def by (simp add: list_all_iff)

lemma imwrite_wf:
  assumes "wf_world w"
  shows "wf_world (snd (imwrite cv p img w))"
proof (cases rule: imwrite_cases [of cv p img w])
  case unchanged
  then show ?thesis using assms by simp
next
  case (written h t dr b)
  from assms written(2) have "wf_dir dr"
    unfolding wf_world_def by (auto simp: list_all_iff dest: map_of_SomeD)
  moreover have "valid_name t"
    using written(1,5) posix_split_tail_no_slash [of p] by (simp add: valid_name_def)
  ultimately have "wf_dir (dr\<lparr>entries := put_entry t (File b) (entries dr)\<rparr>)"
    by (rule wf_dir_put_entry)
  with assms written(7) show ?thesis
    by (simp only: snd_conv wf_world_upd)
qed

lemma dir_key_upd [simp]: "dir_key (w\<lparr>dirs := ds\<rparr>) d = dir_key w d"
  by (simp add: dir_key_def Let_def)

lemma lookup_path_upd:
  "posix_split p = (h, t) \<Longrightarrow>
   lookup_path (w\<lparr>dirs := put_entry (dir_key w h) dr (dirs w)\<rparr>) p = map_of (entries dr) t"
  by (simp add: lookup_path_def)

lemma lookup_path_imwrite:
  assumes "imwrite cv p img w = (True, w')"
  shows "\<exists>b. encode cv p img = Some b \<and> lookup_path w' p = Some (File b)"
proof -
  from assms obtain h t dr b where ht: "posix_split p = (h, t)"
    and dr: "map_of (dirs w) (dir_key w h) = Some dr" and b: "encode cv p img = Some b"
    and w': "w' = w\<lparr>dirs := put_entry (dir_key w h) (dr\<lparr>entries := put_entry t (File b) (entries dr)\<rparr>) (dirs w)\<rparr>"
    by (rule imwrite_True)
  have "lookup_path w' p = Some (File b)"
    unfolding w' by (rule trans [OF lookup_path_upd [OF ht]]) simp
  with b show ?thesis by simp
qed

lemma imwrite_other_dirs:
  assumes "posix_split p = (h, t)" "k \<noteq> dir_key w h"
  shows "map_of (dirs (snd (imwrite cv p img w))) k = map_of (dirs w) k"
proof (cases rule: imwrite_cases [of cv p img w])
  case unchanged
  then show ?thesis by simp
next
  case (written h' t' dr b)
  with assms show ?thesis by simp
qed

lemma imwrite_twice:
  "snd (imwrite cv p img (snd (imwrite cv p img w))) = snd (imwrite cv p img w)"
proof (cases rule: imwrite_cases [of cv p img w])
  case unchanged
  then show ?thesis by simp
next
  case (written h t dr b)
  let ?dr' = "dr\<lparr>entries := put_entry t (File b) (entries dr)\<rparr>"
  let ?w1 = "w\<lparr>dirs := put_entry (dir_key w h) ?dr' (dirs w)\<rparr>"
  have "imwrite cv p img ?w1 =
          (True, ?w1\<lparr>dirs := put_entry (dir_key w h)
             (?dr'\<lparr>entries := put_entry t (File b) (entries ?dr')\<rparr>) (dirs ?w1)\<rparr>)"
    using written by (simp add: imwrite_def)
  then have "imwrite cv p img ?w1 = (True, ?w1)"
    by simp
  with written(7) show ?thesis by simp
qed

text \<open>
  What a run reads of the world is the listing of the input directory and the entries
  of that directory; a world that agrees on that directory gives the same listing and
  the same reads of the joined paths.
\<close>

lemma listdir_Inr_iff:
  "listdir w d = Inr names \<longleftrightarrow>
   d \<noteq> [] \<and> (\<exists>dr. map_of (dirs w) (dir_key w d) = Some dr \<and> readable dr \<and> names = map fst (entries dr))"
  by (auto simp: listdir_def split: option.split node.split)

lemma listdir_same_dir:
  assumes "cwd w' = cwd w" "map_of (dirs w') (dir_key w d) = map_of (dirs w) (dir_key w d)"
  shows "listdir w' d = Inr names \<longleftrightarrow> listdir w d = Inr names"
proof -
  have "dir_key w' d = dir_key w d" using assms(1) by (rule dir_key_cwd)
  with assms(2) show ?thesis by (simp add: listdir_Inr_iff)
qed

lemma listdir_valid_names:
  assumes "wf_world w" "listdir w d = Inr names" "f \<in> set names"
  shows "valid_name f \<and> d \<noteq> [] \<and> (\<exists>dr. map_of (dirs w) (dir_key w d) = Some dr \<and> names = map fst (entries dr))"
proof -
  from assms(2) obtain dr where dr: "map_of (dirs w) (dir_key w d) = Some dr"
    and names: "names = map fst (entries dr)" and d: "d \<noteq> []"
    by (auto simp: listdir_Inr_iff)
  from assms(1) dr have "wf_dir dr"
    unfolding wf_world_def by (auto simp: list_all_iff dest: map_of_SomeD)
  with assms(3) names have "valid_name f"
    by (auto simp: wf_dir_def list_all_iff)
  with dr names d show ?thesis by blast
qed

lemma imread_join_same_dir:
  assumes "wf_world w" "listdir w d = Inr names" "f \<in> set names"
    "cwd w' = cwd w" "map_of (dirs w') (dir_key w d) = map_of (dirs w) (dir_key w d)"
  shows "imread cv w' (posix_join d f) = imread cv w (posix_join d f)"
proof -
  obtain dr where v: "valid_name f" "d \<noteq> []" and dr: "map_of (dirs w) (dir_key w d) = Some dr"
    using listdir_valid_names [OF assms(1-3)] by blast
  have dr': "map_of (dirs w') (dir_key w' d) = Some dr"
    using assms(4,5) dr dir_key_cwd [OF assms(4)] by simp
  show ?thesis
    using lookup_path_join [OF v(2,1) dr] lookup_path_join [OF v(2,1) dr'] by (simp add: imread_def)
qed

end
