(* ===== verification/Scan.thy ===== *)
theory Scan
  imports World
begin

text \<open>
  The Image Set Loader's discovery step, \<open>scan_images\<close> (\<open>src/main.py\<close>, lines
  40--51): list the directory, keep the names whose lower-cased form ends in one of the
  supported extensions, join each to the directory, and warn when nothing is left.
  \<open>os.listdir\<close> raising is an \<open>Inl\<close> result: \<open>scan_images\<close> does not catch it.
  The selection test is compared with \<open>os.path.splitext\<close>, Python's own notion of a
  file's extension.
\<close>

definition supported_extensions :: "string list" where
  "supported_extensions = [''.jpg'', ''.jpeg'', ''.png'']"

definition is_image_name :: "string \<Rightarrow> bool" where
  "is_image_name f = py_endswith_any (py_lower f) supported_extensions"

definition scan_images :: "string \<Rightarrow> 'b rt \<Rightarrow> (os_error + string list) \<times> 'b rt" where
  "scan_images directory s =
     (let s1 = record_calls [CallListdir directory] s in
      case listdir (world s) directory of
        Inl e \<Rightarrow> (Inl e, s1)
      | Inr names \<Rightarrow>
          (let image_files = map (posix_join directory) (filter is_image_name names)
           in (Inr image_files,
               if image_files = [] then emit WARNING MsgNoImageFiles s1 else s1)))"

section \<open>Behaviour\<close>

lemma scan_images_world [simp, effect_simps]: "world (snd (scan_images d s)) = world s"
  by (simp add: scan_images_def Let_def split: sum.splits)

lemma scan_images_calls [simp, effect_simps]:
  "calls (snd (scan_images d s)) = calls s @ [CallListdir d]"
  by (simp add: scan_images_def Let_def split: sum.splits)

lemma scan_images_Inl:
  "listdir (world s) d = Inl e \<Longrightarrow>
   scan_images d s = (Inl e, record_calls [CallListdir d] s)"
  by (simp add: scan_images_def)

lemma is_image_name_iff:
  "is_image_name f \<longleftrightarrow> (\<exists>e \<in> set supported_extensions. suffix e (py_lower f))"
  by (simp add: is_image_name_def py_endswith_any_iff)

lemma is_image_name_lower [simp]: "is_image_name (py_lower f) = is_image_name f"
proof -
  have "py_lower (py_lower f) = py_lower f"
    by (simp add: py_lower_def comp_def)
  then show ?thesis by (simp add: is_image_name_def)
qed

lemma listdir_Inr:
  assumes "listdir w d = Inr names"
  obtains dr where "d \<noteq> []" "map_of (dirs w) (dir_key w d) = Some dr" "names = map fst (entries dr)"
  using assms by (auto simp: listdir_Inr_iff)

lemma scan_images_result:
  assumes "fst (scan_images d s) = Inr files"
  obtains names where "listdir (world s) d = Inr names"
    "files = map (posix_join d) (filter is_image_name names)"
  using assms by (cases "listdir (world s) d") (auto simp: scan_images_def Let_def)

section \<open>Correctness of the discovery\<close>

text \<open>
  C16. Discovery (spec 6, 8): when the directory can be listed, \<open>scan_images\<close>
  returns, in listing order, the directory joined to exactly those names whose
  lower-cased form ends in \<open>.jpg\<close>, \<open>.jpeg\<close> or \<open>.png\<close>; other names are
  skipped without error; the warning is logged exactly when nothing is found; the only
  external call is the listing.
\<close>

theorem scan_images_discovers:
  assumes "listdir (world s) d = Inr names"
  shows "fst (scan_images d s) =
           Inr (map (posix_join d) [f \<leftarrow> names. \<exists>e \<in> {''.jpg'', ''.jpeg'', ''.png''}. suffix e (py_lower f)]) \<and>
         world (snd (scan_images d s)) = world s \<and>
         calls (snd (scan_images d s)) = calls s @ [CallListdir d] \<and>
         logs (snd (scan_images d s)) =
           logs s @ (if \<forall>f \<in> set names. \<not> (\<exists>e \<in> {''.jpg'', ''.jpeg'', ''.png''}. suffix e (py_lower f))
                     then [(WARNING, MsgNoImageFiles)] else [])"
proof -
  have p: "is_image_name = (\<lambda>f. \<exists>e \<in> {''.jpg'', ''.jpeg'', ''.png''}. suffix e (py_lower f))"
    by (auto simp: is_image_name_iff supported_extensions_def)
  have f: "[f \<leftarrow> names. \<exists>e \<in> {''.jpg'', ''.jpeg'', ''.png''}. suffix e (py_lower f)] =
           filter is_image_name names"
    by (simp add: p)
  have n: "(\<forall>f \<in> set names. \<not> (\<exists>e \<in> {''.jpg'', ''.jpeg'', ''.png''}. suffix e (py_lower f))) \<longleftrightarrow>
           filter is_image_name names = []"
    by (simp add: p filter_empty_conv)
  show ?thesis
    unfolding f n using assms by (simp add: scan_images_def Let_def)
qed

theorem scan_images_discovers_witness:
  "listdir (world demo_rt) ''/photos'' = Inr [''a.jpg'', ''B.PNG'', ''c.txt''] \<and>
   fst (scan_images ''/photos'' demo_rt) =
     Inr (map (posix_join ''/photos'')
            [f \<leftarrow> [''a.jpg'', ''B.PNG'', ''c.txt'']. \<exists>e \<in> {''.jpg'', ''.jpeg'', ''.png''}. suffix e (py_lower f)]) \<and>
   world (snd (scan_images ''/photos'' demo_rt)) = world demo_rt \<and>
   calls (snd (scan_images ''/photos'' demo_rt)) = calls demo_rt @ [CallListdir ''/photos''] \<and>
   logs (snd (scan_images ''/photos'' demo_rt)) =
     logs demo_rt @ (if \<forall>f \<in> set [''a.jpg'', ''B.PNG'', ''c.txt'']. \<not> (\<exists>e \<in> {''.jpg'', ''.jpeg'', ''.png''}. suffix e (py_lower f))
                     then [(WARNING, MsgNoImageFiles)] else [])"
proof -
  have h: "listdir (world demo_rt) ''/photos'' = Inr [''a.jpg'', ''B.PNG'', ''c.txt'']" by code_simp
  show ?thesis using scan_images_discovers [OF h] h by blast
qed

text \<open>
  C17. Every discovered path names the entry it was built from: in a well-formed file
  system, \<open>cv2.imread\<close> of each path \<open>scan_images\<close> returns finds the directory entry
  \<open>os.listdir\<close> listed under that name, so the Loader reads exactly the discovered
  entries (which may be subdirectories: a directory named like an image is selected too).
\<close>

theorem scan_images_paths_resolve:
  assumes "wf_world (world s)" "fst (scan_images d s) = Inr files"
  shows "\<exists>dr. map_of (dirs (world s)) (dir_key (world s) d) = Some dr \<and>
              files = map (posix_join d) (filter is_image_name (map fst (entries dr))) \<and>
              map (lookup_path (world s)) files =
                map (map_of (entries dr)) (filter is_image_name (map fst (entries dr)))"
proof -
  obtain names where ld: "listdir (world s) d = Inr names"
    and files: "files = map (posix_join d) (filter is_image_name names)"
    using assms(2) by (rule scan_images_result)
  obtain dr where d: "d \<noteq> []" and dr: "map_of (dirs (world s)) (dir_key (world s) d) = Some dr"
    and names: "names = map fst (entries dr)"
    using ld by (rule listdir_Inr)
  have "lookup_path (world s) (posix_join d f) = map_of (entries dr) f" if "f \<in> set names" for f
  proof -
    have "valid_name f" using listdir_valid_names [OF assms(1) ld that] by blast
    then show ?thesis by (rule lookup_path_join [OF d _ dr])
  qed
  with files names dr show ?thesis by auto
qed

theorem scan_images_paths_resolve_witness:
  "wf_world (world demo_rt) \<and>
   fst (scan_images ''/photos'' demo_rt) = Inr [''/photos/a.jpg'', ''/photos/B.PNG''] \<and>
   (\<exists>dr. map_of (dirs (world demo_rt)) (dir_key (world demo_rt) ''/photos'') = Some dr \<and>
         [''/photos/a.jpg'', ''/photos/B.PNG''] = map (posix_join ''/photos'') (filter is_image_name (map fst (entries dr))) \<and>
         map (lookup_path (world demo_rt)) [''/photos/a.jpg'', ''/photos/B.PNG''] =
           map (map_of (entries dr)) (filter is_image_name (map fst (entries dr))))"
proof -
  have h1: "wf_world (world demo_rt)" by code_simp
  have h2: "fst (scan_images ''/photos'' demo_rt) = Inr [''/photos/a.jpg'', ''/photos/B.PNG'']" by code_simp
  show ?thesis using scan_images_paths_resolve [OF h1 h2] h1 h2 by blast
qed

text \<open>
  C31. Discovery against Python's notion of an extension (spec 6): for every name a
  listing can return, \<open>scan_images\<close>'s test \<open>f.lower().endswith(...)\<close> selects
  exactly the names whose \<open>os.path.splitext\<close> extension, lower-cased, is supported,
  and besides them the names that are only dots followed by a supported extension
  (\<open>.png\<close>, \<open>..jpg\<close>), which \<open>splitext\<close> reads as hidden files without an
  extension.
\<close>

theorem is_image_name_splitext:
  assumes "valid_name f"
  shows "is_image_name f \<longleftrightarrow>
         py_lower (snd (py_splitext f)) \<in> set supported_extensions \<or>
         (\<exists>e \<in> set supported_extensions. \<exists>k. py_lower f = replicate k dot @ e)"
proof -
  let ?L = "py_lower f"
  have sl: "slash \<notin> set ?L" using assms by (simp add: valid_name_def)
  have lo: "py_lower (snd (py_splitext f)) = snd (py_splitext ?L)" by (simp add: py_splitext_lower)
  have "suffix e ?L \<longleftrightarrow> snd (py_splitext ?L) = e \<or> (\<exists>k. ?L = replicate k dot @ e)"
    if "e \<in> set supported_extensions" for e
  proof -
    from that obtain x where "e = dot # x" "dot \<notin> set x" by (auto simp: supported_extensions_def)
    then show ?thesis using suffix_extension_iff [OF _ sl] by simp
  qed
  then show ?thesis unfolding lo is_image_name_iff by blast
qed

theorem is_image_name_splitext_witness:
  "valid_name ''.png'' \<and> is_image_name ''.png'' \<and> snd (py_splitext ''.png'') = [] \<and>
   (is_image_name ''.png'' \<longleftrightarrow>
      py_lower (snd (py_splitext ''.png'')) \<in> set supported_extensions \<or>
      (\<exists>e \<in> set supported_extensions. \<exists>k. py_lower ''.png'' = replicate k dot @ e))"
proof -
  have h: "valid_name ''.png''" by code_simp
  have i: "is_image_name ''.png''" by code_simp
  have s: "snd (py_splitext ''.png'') = []" by code_simp
  show ?thesis using is_image_name_splitext [OF h] h i s by blast
qed

end
