(* ===== verification/Stitch.thy ===== *)
theory Stitch
  imports World
begin

text \<open>
  The Stitch Orchestrator, \<open>create_panorama\<close> (\<open>src/main.py\<close>, lines 11--33): log
  the count, read every file with \<open>cv2.imread\<close>, give up if any read returned
  \<open>None\<close>, otherwise call the stitching engine once and return its panorama when the
  status is \<open>cv2.Stitcher_OK\<close>. Python's \<open>None\<close> result is \<open>None\<close>, a returned
  panorama is \<open>Some\<close>.

  Beside it, the specification's view (spec sections 3, 4.1, 4.2): \<open>spec_load\<close>
  fails with the identifier of an undecodable file or gives the decoded set in input
  order; \<open>assemble\<close> maps the engine's status to \<open>Success\<close> or to a
  \<open>Failure\<close> carrying the engine's code, with an unknown code kept as such.
\<close>

section \<open>The code\<close>

definition stitcher_OK :: int where
  "stitcher_OK = 0"

text \<open>Line 16: \<open>images = [cv2.imread(img_file) for img_file in image_files]\<close>.\<close>

definition load_images :: "('b, 'img) cv2 \<Rightarrow> string list \<Rightarrow> 'b rt \<Rightarrow> 'img option list \<times> 'b rt" where
  "load_images cv image_files s =
     (map (imread cv (world s)) image_files, record_calls (map CallImread image_files) s)"

definition create_panorama :: "('b, 'img) cv2 \<Rightarrow> string list \<Rightarrow> 'b rt \<Rightarrow> 'img option \<times> 'b rt" where
  "create_panorama cv image_files s =
     (let s1 = emit INFO (MsgStitching (length image_files)) s;
          (images, s2) = load_images cv image_files s1
      in if list_ex (\<lambda>img. img = None) images then (None, emit ERROR MsgLoadFailed s2)
         else
           (let imgs = map the images;
                (status, panorama) = stitch cv imgs;
                s3 = record_calls [CallStitch (length imgs)] s2
            in if status \<noteq> stitcher_OK then (None, emit ERROR (MsgStitchFailed status) s3)
               else (panorama, emit INFO MsgPanoramaCreated s3)))"

section \<open>The specification's view\<close>

datatype stitch_error =
    ERR_NEED_MORE_IMGS
  | ERR_HOMOGRAPHY_EST_FAIL
  | ERR_CAMERA_PARAMS_ADJUST_FAIL
  | ERR_UNKNOWN int

datatype 'img stitch_result = Success 'img | Failure stitch_error

text \<open>The engine's status codes: \<open>cv2.Stitcher_ERR_*\<close> are 1, 2, 3.\<close>

fun status_error :: "int \<Rightarrow> stitch_error" where
  "status_error c =
     (if c = 1 then ERR_NEED_MORE_IMGS
      else if c = 2 then ERR_HOMOGRAPHY_EST_FAIL
      else if c = 3 then ERR_CAMERA_PARAMS_ADJUST_FAIL
      else ERR_UNKNOWN c)"

definition spec_load :: "('b, 'img) cv2 \<Rightarrow> 'b world \<Rightarrow> string list \<Rightarrow> string + 'img list" where
  "spec_load cv w paths =
     (case find (\<lambda>p. imread cv w p = None) paths of
        Some p \<Rightarrow> Inl p
      | None \<Rightarrow> Inr (map (\<lambda>p. the (imread cv w p)) paths))"

text \<open>An \<open>OK\<close> status without a raster falls outside the engine's contract; it is read
  as a failure with the status it came with.\<close>

definition assemble :: "('b, 'img) cv2 \<Rightarrow> 'img list \<Rightarrow> 'img stitch_result" where
  "assemble cv imgs =
     (case stitch cv imgs of
        (status, Some p) \<Rightarrow> if status = 0 then Success p else Failure (status_error status)
      | (status, None) \<Rightarrow> Failure (status_error status))"

definition result_option :: "'img stitch_result \<Rightarrow> 'img option" where
  "result_option r = (case r of Success p \<Rightarrow> Some p | Failure _ \<Rightarrow> None)"

section \<open>Unfolding \<open>create_panorama\<close> by branch\<close>

lemma load_images_simps [simp]:
  "load_images cv fs s = (map (imread cv (world s)) fs, record_calls (map CallImread fs) s)"
  by (simp add: load_images_def)

lemma create_panorama_load_fail:
  assumes "None \<in> imread cv (world s) ` set fs"
  shows "create_panorama cv fs s =
    (None, emit ERROR MsgLoadFailed
             (record_calls (map CallImread fs) (emit INFO (MsgStitching (length fs)) s)))"
  using assms by (simp add: create_panorama_def Let_def image_iff)

lemma create_panorama_loaded:
  assumes "None \<notin> imread cv (world s) ` set fs"
  shows "create_panorama cv fs s =
    (let s3 = record_calls (map CallImread fs @ [CallStitch (length fs)])
                (emit INFO (MsgStitching (length fs)) s)
     in case stitch cv (map (\<lambda>p. the (imread cv (world s) p)) fs) of
          (status, panorama) \<Rightarrow>
            if status \<noteq> stitcher_OK then (None, emit ERROR (MsgStitchFailed status) s3)
            else (panorama, emit INFO MsgPanoramaCreated s3))"
proof -
  have "None \<notin> set (map (imread cv (world s)) fs)"
    using assms by auto
  then show ?thesis
    by (simp add: create_panorama_def Let_def record_calls_def comp_def split: prod.splits)
qed


lemma create_panorama_world [simp, effect_simps]:
  "world (snd (create_panorama cv fs s)) = world s"
  by (simp add: create_panorama_def Let_def split: prod.splits)

lemma spec_load_Inr_iff:
  "spec_load cv w fs = Inr imgs \<longleftrightarrow>
   None \<notin> imread cv w ` set fs \<and> imgs = map (\<lambda>p. the (imread cv w p)) fs"
proof (cases "find (\<lambda>p. imread cv w p = None) fs")
  case None
  then have "None \<notin> imread cv w ` set fs"
    by (force simp: find_None_iff)
  with None show ?thesis by (auto simp: spec_load_def)
next
  case (Some p)
  then have "None \<in> imread cv w ` set fs"
    by (force dest: find_Some_set)
  with Some show ?thesis by (auto simp: spec_load_def)
qed

lemma spec_load_Inl:
  "spec_load cv w fs = Inl p \<Longrightarrow> p \<in> set fs \<and> imread cv w p = None"
  by (auto simp: spec_load_def split: option.splits dest: find_Some_set)

lemma create_panorama_spec_loaded:
  assumes "spec_load cv (world s) fs = Inr imgs" "stitch cv imgs = (st, pano)"
  shows "create_panorama cv fs s =
    (let s3 = record_calls (map CallImread fs @ [CallStitch (length fs)])
                (emit INFO (MsgStitching (length fs)) s)
     in if st \<noteq> stitcher_OK then (None, emit ERROR (MsgStitchFailed st) s3)
        else (pano, emit INFO MsgPanoramaCreated s3))"
  using assms by (simp add: spec_load_Inr_iff create_panorama_loaded)

lemma assemble_status:
  "stitch cv imgs = (st, pano) \<Longrightarrow>
   assemble cv imgs = (if st = stitcher_OK \<and> pano \<noteq> None then Success (the pano)
                       else Failure (status_error st))"
  by (cases pano) (simp_all add: assemble_def stitcher_OK_def)

section \<open>Correctness of \<open>create_panorama\<close>\<close>

text \<open>
  C1. All or nothing (spec 4.1, 9): when any of the files does not load,
  \<open>create_panorama\<close> returns \<open>None\<close> without calling the stitching engine (the
  trace holds only the reads), leaves the file system alone, and logs the count and
  the load error, which does not say which file failed.
\<close>

theorem create_panorama_load_failure:
  assumes "p \<in> set fs" "imread cv (world s) p = None"
  shows "fst (create_panorama cv fs s) = None \<and>
         world (snd (create_panorama cv fs s)) = world s \<and>
         calls (snd (create_panorama cv fs s)) = calls s @ map CallImread fs \<and>
         logs (snd (create_panorama cv fs s)) =
           logs s @ [(INFO, MsgStitching (length fs)), (ERROR, MsgLoadFailed)]"
proof -
  from assms have "None \<in> imread cv (world s) ` set fs" by force
  then show ?thesis by (simp add: create_panorama_load_fail)
qed

theorem create_panorama_load_failure_witness:
  "''/broken/x.jpg'' \<in> set [''/broken/x.jpg'', ''/broken/y.jpg''] \<and>
   imread demo_cv (world demo_rt) ''/broken/x.jpg'' = None \<and>
   fst (create_panorama demo_cv [''/broken/x.jpg'', ''/broken/y.jpg''] demo_rt) = None \<and>
   world (snd (create_panorama demo_cv [''/broken/x.jpg'', ''/broken/y.jpg''] demo_rt)) = world demo_rt \<and>
   calls (snd (create_panorama demo_cv [''/broken/x.jpg'', ''/broken/y.jpg''] demo_rt)) =
     calls demo_rt @ map CallImread [''/broken/x.jpg'', ''/broken/y.jpg''] \<and>
   logs (snd (create_panorama demo_cv [''/broken/x.jpg'', ''/broken/y.jpg''] demo_rt)) =
     logs demo_rt @ [(INFO, MsgStitching (length [''/broken/x.jpg'', ''/broken/y.jpg''])), (ERROR, MsgLoadFailed)]"
proof -
  have h1: "''/broken/x.jpg'' \<in> set [''/broken/x.jpg'', ''/broken/y.jpg'']" by simp
  have h2: "imread demo_cv (world demo_rt) ''/broken/x.jpg'' = None" by code_simp
  show ?thesis using create_panorama_load_failure [OF h1 h2] h1 h2 by blast
qed

text \<open>
  C2. One engine call, no retry (spec 4.2): a call of \<open>create_panorama\<close> reads every
  file once, in order, and then calls the engine exactly once if all of them loaded and
  not at all otherwise.
\<close>

theorem create_panorama_calls:
  "calls (snd (create_panorama cv fs s)) =
     calls s @ map CallImread fs @
     (if None \<in> imread cv (world s) ` set fs then [] else [CallStitch (length fs)])"
  by (cases "None \<in> imread cv (world s) ` set fs")
     (simp_all add: create_panorama_load_fail create_panorama_loaded Let_def split: prod.splits)

text \<open>
  C3. Engine failure passes the code through (spec 4.2, 7): when every file loads and
  the engine answers with a status other than \<open>Stitcher_OK\<close>, \<open>create_panorama\<close>
  returns \<open>None\<close>, the specification's \<open>assemble\<close> gives the \<open>Failure\<close> of
  that status, the last log record is the error with exactly that status, and the file
  system is unchanged.
\<close>

theorem create_panorama_stitch_failure:
  assumes "spec_load cv (world s) fs = Inr imgs" "fst (stitch cv imgs) = st" "st \<noteq> stitcher_OK"
  shows "fst (create_panorama cv fs s) = None \<and>
         assemble cv imgs = Failure (status_error st) \<and>
         last (logs (snd (create_panorama cv fs s))) = (ERROR, MsgStitchFailed st) \<and>
         world (snd (create_panorama cv fs s)) = world s"
proof -
  obtain pano where st: "stitch cv imgs = (st, pano)"
    using assms(2) by (cases "stitch cv imgs") auto
  from create_panorama_spec_loaded [OF assms(1) st] assms(3) assemble_status [OF st]
  show ?thesis by (simp add: Let_def)
qed

theorem create_panorama_stitch_failure_witness:
  "spec_load demo_cv (world demo_rt) [''/photos/a.jpg''] = Inr [1] \<and>
   fst (stitch demo_cv [1]) = 1 \<and> (1::int) \<noteq> stitcher_OK \<and>
   fst (create_panorama demo_cv [''/photos/a.jpg''] demo_rt) = None \<and>
   assemble demo_cv [1] = Failure (status_error 1) \<and>
   last (logs (snd (create_panorama demo_cv [''/photos/a.jpg''] demo_rt))) = (ERROR, MsgStitchFailed 1) \<and>
   world (snd (create_panorama demo_cv [''/photos/a.jpg''] demo_rt)) = world demo_rt"
proof -
  have h1: "spec_load demo_cv (world demo_rt) [''/photos/a.jpg''] = Inr [1]" by code_simp
  have h2: "fst (stitch demo_cv [1]) = 1" by (simp add: demo_cv_def)
  have h3: "(1::int) \<noteq> stitcher_OK" by (simp add: stitcher_OK_def)
  show ?thesis using create_panorama_stitch_failure [OF h1 h2 h3] h1 h2 h3 by blast
qed

text \<open>
  C4. Success (spec 4.2, 8): when every file loads and the engine answers
  \<open>Stitcher_OK\<close> with a panorama, \<open>create_panorama\<close> returns that panorama; the
  engine was given the decoded images in input order, once, after all reads; the log
  has the count and the success message; the file system is unchanged.
\<close>

theorem create_panorama_success:
  assumes "spec_load cv (world s) fs = Inr imgs" "stitch cv imgs = (stitcher_OK, Some p)"
  shows "fst (create_panorama cv fs s) = Some p \<and>
         assemble cv imgs = Success p \<and>
         calls (snd (create_panorama cv fs s)) = calls s @ map CallImread fs @ [CallStitch (length fs)] \<and>
         logs (snd (create_panorama cv fs s)) =
           logs s @ [(INFO, MsgStitching (length fs)), (INFO, MsgPanoramaCreated)] \<and>
         world (snd (create_panorama cv fs s)) = world s"
  using create_panorama_spec_loaded [OF assms] assemble_status [OF assms(2)]
  by (simp add: Let_def)

theorem create_panorama_success_witness:
  "spec_load demo_cv (world demo_rt) [''/photos/a.jpg'', ''/photos/B.PNG''] = Inr [1, 2] \<and>
   stitch demo_cv [1, 2] = (stitcher_OK, Some 3) \<and>
   fst (create_panorama demo_cv [''/photos/a.jpg'', ''/photos/B.PNG''] demo_rt) = Some 3 \<and>
   assemble demo_cv [1, 2] = Success 3 \<and>
   calls (snd (create_panorama demo_cv [''/photos/a.jpg'', ''/photos/B.PNG''] demo_rt)) =
     calls demo_rt @ map CallImread [''/photos/a.jpg'', ''/photos/B.PNG''] @
       [CallStitch (length [''/photos/a.jpg'', ''/photos/B.PNG''])] \<and>
   logs (snd (create_panorama demo_cv [''/photos/a.jpg'', ''/photos/B.PNG''] demo_rt)) =
     logs demo_rt @ [(INFO, MsgStitching (length [''/photos/a.jpg'', ''/photos/B.PNG''])),
                     (INFO, MsgPanoramaCreated)] \<and>
   world (snd (create_panorama demo_cv [''/photos/a.jpg'', ''/photos/B.PNG''] demo_rt)) = world demo_rt"
proof -
  have h1: "spec_load demo_cv (world demo_rt) [''/photos/a.jpg'', ''/photos/B.PNG''] = Inr [1, 2]"
    by code_simp
  have h2: "stitch demo_cv [1, 2] = (stitcher_OK, Some 3)" by (simp add: demo_cv_def stitcher_OK_def)
  show ?thesis using create_panorama_success [OF h1 h2] h1 h2 by blast
qed

text \<open>
  C5. Refinement (spec 4.1, 4.2): the value \<open>create_panorama\<close> returns is the
  specification's pipeline \<open>load\<close> then \<open>assemble\<close>, with a \<open>LoadError\<close>
  and every \<open>Failure\<close> read as Python's \<open>None\<close>, for every codec, engine and
  file system.
\<close>

theorem create_panorama_refines:
  "fst (create_panorama cv fs s) =
     (case spec_load cv (world s) fs of
        Inl _ \<Rightarrow> None
      | Inr imgs \<Rightarrow> result_option (assemble cv imgs))"
proof (cases "spec_load cv (world s) fs")
  case (Inl p)
  then have "None \<in> imread cv (world s) ` set fs"
    using spec_load_Inl by force
  with Inl show ?thesis by (simp add: create_panorama_load_fail)
next
  case (Inr imgs)
  obtain st pano where st: "stitch cv imgs = (st, pano)" by fastforce
  from create_panorama_spec_loaded [OF Inr st] assemble_status [OF st] Inr show ?thesis
    by (cases pano) (simp_all add: Let_def result_option_def)
qed

end
