(* ===== verification/Writer.thy ===== *)
theory Writer
  imports World
begin

text \<open>
  The Result Writer, \<open>save_image\<close> (\<open>src/main.py\<close>, lines 35--38): one
  \<open>cv2.imwrite\<close> call, whose Boolean result is dropped, then an info record that the
  panorama was saved. The lemmas show what a successful write leaves on disk (the
  encoded bytes under the name, read back as their decoding) and that a failed write is
  logged exactly like a successful one.
\<close>

definition save_image :: "('b, 'img) cv2 \<Rightarrow> 'img \<Rightarrow> string \<Rightarrow> 'b rt \<Rightarrow> 'b rt" where
  "save_image cv img file_name s =
     (let s1 = record_calls [CallImwrite file_name] s;
          (ok, w') = imwrite cv file_name img (world s1)
      in emit INFO (MsgSaved file_name) (s1\<lparr>world := w'\<rparr>))"

section \<open>Unfolding\<close>

lemma save_image_world [simp]:
  "world (save_image cv img fn s) = snd (imwrite cv fn img (world s))"
  by (simp add: save_image_def Let_def record_calls_def emit_def split: prod.splits)

lemma save_image_logs [simp, effect_simps]:
  "logs (save_image cv img fn s) = logs s @ [(INFO, MsgSaved fn)]"
  by (simp add: save_image_def Let_def record_calls_def emit_def split: prod.splits)

lemma save_image_calls [simp, effect_simps]:
  "calls (save_image cv img fn s) = calls s @ [CallImwrite fn]"
  by (simp add: save_image_def Let_def record_calls_def emit_def split: prod.splits)

lemma save_image_cwd [simp, effect_simps]: "cwd (world (save_image cv img fn s)) = cwd (world s)"
  by simp

lemma imwrite_fst_True: "fst (imwrite cv fn img w) \<Longrightarrow> imwrite cv fn img w = (True, snd (imwrite cv fn img w))"
  by (cases "imwrite cv fn img w") auto

lemma imwrite_fst_False: "\<not> fst (imwrite cv fn img w) \<Longrightarrow> snd (imwrite cv fn img w) = w"
  by (cases "imwrite cv fn img w") (auto dest: imwrite_False)

section \<open>Correctness of \<open>save_image\<close>\<close>

text \<open>
  C6. Write then read (spec 4.3, 8): after a successful write, the path holds exactly
  the bytes the encoder produced for the panorama, and \<open>cv2.imread\<close> of it gives the
  decoding of those bytes. The panorama itself comes back only when the codec is
  lossless on it, which JPEG, the format \<open>main\<close> writes, is not in general.
\<close>

theorem save_image_roundtrip:
  assumes "fst (imwrite cv fn img (world s))"
  shows "\<exists>b. encode cv fn img = Some b \<and>
             lookup_path (world (save_image cv img fn s)) fn = Some (File b) \<and>
             imread cv (world (save_image cv img fn s)) fn = decode cv b"
proof -
  have w: "imwrite cv fn img (world s) = (True, world (save_image cv img fn s))"
    using imwrite_fst_True [OF assms] by simp
  obtain b where b: "encode cv fn img = Some b"
    and l: "lookup_path (world (save_image cv img fn s)) fn = Some (File b)"
    using lookup_path_imwrite [OF w] by blast
  then show ?thesis by (simp add: imread_def)
qed

theorem save_image_roundtrip_witness:
  "fst (imwrite demo_cv ''panorama_output.jpg'' 3 (world demo_rt)) \<and>
   (\<exists>b. encode demo_cv ''panorama_output.jpg'' 3 = Some b \<and>
        lookup_path (world (save_image demo_cv 3 ''panorama_output.jpg'' demo_rt)) ''panorama_output.jpg'' = Some (File b) \<and>
        imread demo_cv (world (save_image demo_cv 3 ''panorama_output.jpg'' demo_rt)) ''panorama_output.jpg'' = decode demo_cv b)"
proof -
  have h: "fst (imwrite demo_cv ''panorama_output.jpg'' 3 (world demo_rt))" by code_simp
  show ?thesis using save_image_roundtrip [OF h] h by blast
qed

text \<open>
  C7. A failed write is reported as saved (spec 4.3, 7 say \<open>WriteError\<close>): when
  \<open>cv2.imwrite\<close> fails, \<open>save_image\<close> leaves the file system as it was and still
  logs, at info level, that the panorama was saved.
\<close>

theorem save_image_failure_logged_as_saved:
  assumes "\<not> fst (imwrite cv fn img (world s))"
  shows "world (save_image cv img fn s) = world s \<and>
         logs (save_image cv img fn s) = logs s @ [(INFO, MsgSaved fn)]"
  using imwrite_fst_False [OF assms] by simp

theorem save_image_failure_logged_as_saved_witness:
  "\<not> fst (imwrite demo_cv ''/nope/out.jpg'' 3 (world demo_rt)) \<and>
   world (save_image demo_cv 3 ''/nope/out.jpg'' demo_rt) = world demo_rt \<and>
   logs (save_image demo_cv 3 ''/nope/out.jpg'' demo_rt) = logs demo_rt @ [(INFO, MsgSaved ''/nope/out.jpg'')]"
proof -
  have h: "\<not> fst (imwrite demo_cv ''/nope/out.jpg'' 3 (world demo_rt))" by code_simp
  show ?thesis using save_image_failure_logged_as_saved [OF h] h by blast
qed

end
