(* ===== verification/Pipeline.thy ===== *)
theory Pipeline
  imports Scan Stitch Writer
begin

text \<open>
  The whole run, \<open>main\<close> (\<open>src/main.py\<close>, lines 59--73, with the exit status of
  lines 75--76): discover the images of
  the input directory, stop when there are none, build the panorama, and write it to
  \<open>panorama_output.jpg\<close> in the working directory. The command line
  (\<open>argparse\<close>, lines 55--57) is reduced to its one value, the input directory.
  \<open>main\<close> returns normally on every path except an exception from \<open>os.listdir\<close>,
  which escapes and ends the process with status 1.
\<close>

definition output_file :: string where
  "output_file = ''panorama_output.jpg''"

datatype exit_status = Returned | Raised os_error

definition main :: "('b, 'img) cv2 \<Rightarrow> string \<Rightarrow> 'b rt \<Rightarrow> exit_status \<times> 'b rt" where
  "main cv input_dir s =
     (case scan_images input_dir s of
        (Inl e, s1) \<Rightarrow> (Raised e, s1)
      | (Inr image_files, s1) \<Rightarrow>
          if image_files = [] then (Returned, emit ERROR MsgNoImagesExit s1)
          else
            (case create_panorama cv image_files s1 of
               (Some panorama, s2) \<Rightarrow> (Returned, save_image cv panorama output_file s2)
             | (None, s2) \<Rightarrow> (Returned, emit ERROR MsgPanoramaFailed s2)))"

text \<open>The process's exit status: \<open>main()\<close> returning is status 0, an uncaught exception 1.\<close>

definition exit_code :: "exit_status \<Rightarrow> nat" where
  "exit_code x = (case x of Returned \<Rightarrow> 0 | Raised _ \<Rightarrow> 1)"

definition discovered :: "'b world \<Rightarrow> string \<Rightarrow> string list" where
  "discovered w d =
     (case listdir w d of Inl _ \<Rightarrow> [] | Inr names \<Rightarrow> map (posix_join d) (filter is_image_name names))"

section \<open>\<open>main\<close> by branch\<close>

lemma main_raised:
  "listdir (world s) d = Inl e \<Longrightarrow> main cv d s = (Raised e, record_calls [CallListdir d] s)"
  by (simp add: main_def scan_images_Inl)

lemma main_no_files:
  "listdir (world s) d = Inr names \<Longrightarrow> filter is_image_name names = [] \<Longrightarrow>
   main cv d s = (Returned, emit ERROR MsgNoImagesExit
                   (emit WARNING MsgNoImageFiles (record_calls [CallListdir d] s)))"
  by (simp add: main_def scan_images_def)

lemma main_files:
  assumes "listdir (world s) d = Inr names" "filter is_image_name names \<noteq> []"
  shows "main cv d s =
    (case create_panorama cv (discovered (world s) d) (record_calls [CallListdir d] s) of
       (Some panorama, s2) \<Rightarrow> (Returned, save_image cv panorama output_file s2)
     | (None, s2) \<Rightarrow> (Returned, emit ERROR MsgPanoramaFailed s2))"
  using assms by (simp add: main_def scan_images_def discovered_def Let_def)


lemma discovered_nonempty:
  assumes "discovered w d \<noteq> []"
  obtains names where "listdir w d = Inr names" "filter is_image_name names \<noteq> []"
  using assms by (cases "listdir w d") (auto simp: discovered_def)

lemma main_discovered:
  assumes "discovered (world s) d \<noteq> []"
  shows "main cv d s =
    (case create_panorama cv (discovered (world s) d) (record_calls [CallListdir d] s) of
       (Some panorama, s2) \<Rightarrow> (Returned, save_image cv panorama output_file s2)
     | (None, s2) \<Rightarrow> (Returned, emit ERROR MsgPanoramaFailed s2))"
  using assms by (rule discovered_nonempty) (rule main_files)

lemma main_world_cases:
  "world (snd (main cv d s)) = world s \<or>
   (\<exists>p. world (snd (main cv d s)) = snd (imwrite cv output_file p (world s)))"
proof (cases "discovered (world s) d = []")
  case True
  then show ?thesis
    by (cases "listdir (world s) d")
       (auto simp: main_raised main_no_files discovered_def)
next
  case False
  obtain r s2 where cp: "create_panorama cv (discovered (world s) d) (record_calls [CallListdir d] s) = (r, s2)"
    by fastforce
  have "world s2 = world s"
    using create_panorama_world [of cv "discovered (world s) d" "record_calls [CallListdir d] s"] cp
    by simp
  with cp show ?thesis
    by (cases r) (auto simp: main_discovered [OF False])
qed

lemma posix_split_output_file: "posix_split output_file = ([], output_file)"
  by (simp add: output_file_def posix_split_def)

lemma main_loaded:
  assumes "discovered (world s) d = fs" "fs \<noteq> []" "spec_load cv (world s) fs = Inr imgs"
    "stitch cv imgs = (st, pano)"
  shows "main cv d s =
    (let s3 = record_calls (map CallImread fs @ [CallStitch (length fs)])
                (emit INFO (MsgStitching (length fs)) (record_calls [CallListdir d] s))
     in if st \<noteq> stitcher_OK then (Returned, emit ERROR MsgPanoramaFailed (emit ERROR (MsgStitchFailed st) s3))
        else case pano of
          Some p \<Rightarrow> (Returned, save_image cv p output_file (emit INFO MsgPanoramaCreated s3))
        | None \<Rightarrow> (Returned, emit ERROR MsgPanoramaFailed (emit INFO MsgPanoramaCreated s3)))"
proof -
  have "spec_load cv (world (record_calls [CallListdir d] s)) fs = Inr imgs"
    using assms(3) by simp
  from create_panorama_spec_loaded [OF this assms(4)] assms(1,2) show ?thesis
    by (cases pano) (simp_all add: main_discovered Let_def)
qed

lemma main_world:
  "world (snd (main cv d s)) =
     (let fs = discovered (world s) d; r = stitch cv (map (\<lambda>p. the (imread cv (world s) p)) fs) in
      if fs \<noteq> [] \<and> None \<notin> imread cv (world s) ` set fs \<and> fst r = stitcher_OK \<and> snd r \<noteq> None
      then snd (imwrite cv output_file (the (snd r)) (world s)) else world s)"
proof (cases "discovered (world s) d = []")
  case True
  then show ?thesis
    by (cases "listdir (world s) d") (auto simp: main_raised main_no_files discovered_def)
next
  case ne: False
  show ?thesis
  proof (cases "None \<in> imread cv (world s) ` set (discovered (world s) d)")
    case True
    then show ?thesis
      by (simp add: main_discovered [OF ne] create_panorama_load_fail)
  next
    case False
    let ?fs = "discovered (world s) d"
    let ?imgs = "map (\<lambda>p. the (imread cv (world s) p)) ?fs"
    have sl: "spec_load cv (world s) ?fs = Inr ?imgs"
      using False by (simp add: spec_load_Inr_iff)
    obtain st pano where r: "stitch cv ?imgs = (st, pano)" by fastforce
    from main_loaded [OF refl ne sl r] r ne False show ?thesis
      by (cases pano) (simp_all add: Let_def)
  qed
qed

lemma discovered_same_dir:
  "cwd w' = cwd w \<Longrightarrow> map_of (dirs w') (dir_key w d) = map_of (dirs w) (dir_key w d) \<Longrightarrow>
   discovered w' d = discovered w d"
proof -
  assume "cwd w' = cwd w" "map_of (dirs w') (dir_key w d) = map_of (dirs w) (dir_key w d)"
  then have "listdir w' d = Inr names \<longleftrightarrow> listdir w d = Inr names" for names
    by (rule listdir_same_dir)
  note iff = this
  show ?thesis
  proof (cases "listdir w d")
    case (Inr names)
    with iff [of names] show ?thesis by (simp add: discovered_def)
  next
    case (Inl e)
    obtain e' where "listdir w' d = Inl e'"
      using iff Inl by (cases "listdir w' d") auto
    with Inl show ?thesis by (simp add: discovered_def)
  qed
qed

lemma imread_discovered_same_dir:
  assumes "wf_world w" "cwd w' = cwd w" "map_of (dirs w') (dir_key w d) = map_of (dirs w) (dir_key w d)"
    "p \<in> set (discovered w d)"
  shows "imread cv w' p = imread cv w p"
proof -
  from assms(4) obtain names where ld: "listdir w d = Inr names"
    by (cases "listdir w d") (auto simp: discovered_def)
  with assms(4) obtain f where "f \<in> set names" "p = posix_join d f"
    by (auto simp: discovered_def)
  with ld assms(1-3) show ?thesis by (metis imread_join_same_dir)
qed

lemma main_keeps_input_dir:
  assumes "dir_key (world s) d \<noteq> cwd (world s)"
  shows "cwd (world (snd (main cv d s))) = cwd (world s) \<and>
         map_of (dirs (world (snd (main cv d s)))) (dir_key (world s) d) =
           map_of (dirs (world s)) (dir_key (world s) d)"
proof -
  have k: "dir_key (world s) d \<noteq> dir_key (world s) []"
    using assms by (simp add: dir_key_Nil)
  have "map_of (dirs (snd (imwrite cv output_file p (world s)))) (dir_key (world s) d) =
        map_of (dirs (world s)) (dir_key (world s) d)" for p
    using imwrite_other_dirs [OF posix_split_output_file k] .
  with main_world_cases [of cv d s] show ?thesis by auto
qed

section \<open>Correctness of the run\<close>

text \<open>
  C8. No images (spec 7, 8): when the directory lists no name with an image extension,
  the run stops before loading anything: the trace holds only the listing, the file
  system is unchanged, the log has the warning of \<open>scan_images\<close> and the error of
  \<open>main\<close>, and \<open>main\<close> returns normally.
\<close>

theorem main_no_images:
  assumes "listdir (world s) d = Inr names" "filter is_image_name names = []"
  shows "fst (main cv d s) = Returned \<and> world (snd (main cv d s)) = world s \<and>
         calls (snd (main cv d s)) = calls s @ [CallListdir d] \<and>
         logs (snd (main cv d s)) = logs s @ [(WARNING, MsgNoImageFiles), (ERROR, MsgNoImagesExit)]"
  by (simp add: main_no_files [OF assms])

theorem main_no_images_witness:
  "listdir (world demo_rt) ''/home'' = Inr [] \<and> filter is_image_name [] = [] \<and>
   fst (main demo_cv ''/home'' demo_rt) = Returned \<and> world (snd (main demo_cv ''/home'' demo_rt)) = world demo_rt \<and>
   calls (snd (main demo_cv ''/home'' demo_rt)) = calls demo_rt @ [CallListdir ''/home''] \<and>
   logs (snd (main demo_cv ''/home'' demo_rt)) =
     logs demo_rt @ [(WARNING, MsgNoImageFiles), (ERROR, MsgNoImagesExit)]"
proof -
  have h1: "listdir (world demo_rt) ''/home'' = Inr []" by code_simp
  have h2: "filter is_image_name [] = []" by simp
  show ?thesis using main_no_images [OF h1 h2, of demo_cv] h1 h2 by blast
qed

text \<open>
  C9. A file that does not load stops the run (spec 4.1, 8): the engine is never called
  and nothing is written (the trace is the listing and the reads), and the run ends
  with the error that no panorama was created.
\<close>

theorem main_load_failure:
  assumes "p \<in> set (discovered (world s) d)" "imread cv (world s) p = None"
  shows "fst (main cv d s) = Returned \<and> world (snd (main cv d s)) = world s \<and>
         calls (snd (main cv d s)) = calls s @ CallListdir d # map CallImread (discovered (world s) d) \<and>
         last (logs (snd (main cv d s))) = (ERROR, MsgPanoramaFailed)"
proof -
  have ne: "discovered (world s) d \<noteq> []" using assms(1) by auto
  have "None \<in> imread cv (world (record_calls [CallListdir d] s)) ` set (discovered (world s) d)"
    using assms by force
  then show ?thesis
    by (simp add: main_discovered [OF ne] create_panorama_load_fail)
qed

theorem main_load_failure_witness:
  "''/broken/x.jpg'' \<in> set (discovered (world demo_rt) ''/broken'') \<and>
   imread demo_cv (world demo_rt) ''/broken/x.jpg'' = None \<and>
   fst (main demo_cv ''/broken'' demo_rt) = Returned \<and>
   world (snd (main demo_cv ''/broken'' demo_rt)) = world demo_rt \<and>
   calls (snd (main demo_cv ''/broken'' demo_rt)) =
     calls demo_rt @ CallListdir ''/broken'' # map CallImread (discovered (world demo_rt) ''/broken'') \<and>
   last (logs (snd (main demo_cv ''/broken'' demo_rt))) = (ERROR, MsgPanoramaFailed)"
proof -
  have h1: "''/broken/x.jpg'' \<in> set (discovered (world demo_rt) ''/broken'')" by code_simp
  have h2: "imread demo_cv (world demo_rt) ''/broken/x.jpg'' = None" by code_simp
  show ?thesis using main_load_failure [OF h1 h2] h1 h2 by blast
qed

text \<open>
  C10. An engine failure ends the run without output (spec 4.2, 8: the scenario with a
  single image): after the listing, the reads and one engine call, nothing is written,
  and the log has the count, the engine's exact status, and the final error.
\<close>

theorem main_stitch_failure:
  assumes "discovered (world s) d = fs" "fs \<noteq> []" "spec_load cv (world s) fs = Inr imgs"
    "fst (stitch cv imgs) = st" "st \<noteq> stitcher_OK"
  shows "fst (main cv d s) = Returned \<and> world (snd (main cv d s)) = world s \<and>
         calls (snd (main cv d s)) = calls s @ CallListdir d # map CallImread fs @ [CallStitch (length fs)] \<and>
         logs (snd (main cv d s)) =
           logs s @ [(INFO, MsgStitching (length fs)), (ERROR, MsgStitchFailed st), (ERROR, MsgPanoramaFailed)]"
proof -
  obtain pano where "stitch cv imgs = (st, pano)"
    using assms(4) by (cases "stitch cv imgs") auto
  from main_loaded [OF assms(1-3) this] assms(5) show ?thesis by (simp add: Let_def)
qed

theorem main_stitch_failure_witness:
  "discovered (world demo_rt) ''/single'' = [''/single/a.jpg''] \<and> [''/single/a.jpg''] \<noteq> [] \<and>
   spec_load demo_cv (world demo_rt) [''/single/a.jpg''] = Inr [1] \<and>
   fst (stitch demo_cv [1]) = 1 \<and> (1::int) \<noteq> stitcher_OK \<and>
   fst (main demo_cv ''/single'' demo_rt) = Returned \<and>
   world (snd (main demo_cv ''/single'' demo_rt)) = world demo_rt \<and>
   calls (snd (main demo_cv ''/single'' demo_rt)) =
     calls demo_rt @ CallListdir ''/single'' # map CallImread [''/single/a.jpg''] @
       [CallStitch (length [''/single/a.jpg''])] \<and>
   logs (snd (main demo_cv ''/single'' demo_rt)) =
     logs demo_rt @ [(INFO, MsgStitching (length [''/single/a.jpg''])), (ERROR, MsgStitchFailed 1),
                     (ERROR, MsgPanoramaFailed)]"
proof -
  have h1: "discovered (world demo_rt) ''/single'' = [''/single/a.jpg'']" by code_simp
  have h2: "[''/single/a.jpg''] \<noteq> []" by simp
  have h3: "spec_load demo_cv (world demo_rt) [''/single/a.jpg''] = Inr [1]" by code_simp
  have h4: "fst (stitch demo_cv [1]) = 1" by (simp add: demo_cv_def)
  have h5: "(1::int) \<noteq> stitcher_OK" by (simp add: stitcher_OK_def)
  show ?thesis using main_stitch_failure [OF h1 h2 h3 h4 h5] h1 h2 h3 h4 h5 by blast
qed

text \<open>
  C11. A successful run leaves the panorama on disk (spec 4.3, 8: the scenario
  \<open>a.jpg, b.png, c.txt\<close>): when every discovered file loads, the engine succeeds and the
  write succeeds, the calls are the listing, the reads, one engine call and one write of
  \<open>panorama_output.jpg\<close>, and that file then holds the encoder's bytes for the
  panorama, which \<open>cv2.imread\<close> decodes back.
\<close>

theorem main_success_output:
  assumes "discovered (world s) d = fs" "fs \<noteq> []" "spec_load cv (world s) fs = Inr imgs"
    "stitch cv imgs = (stitcher_OK, Some p)" "fst (imwrite cv output_file p (world s))"
  shows "fst (main cv d s) = Returned \<and>
         calls (snd (main cv d s)) =
           calls s @ CallListdir d # map CallImread fs @ [CallStitch (length fs), CallImwrite output_file] \<and>
         (\<exists>b. encode cv output_file p = Some b \<and>
              lookup_path (world (snd (main cv d s))) output_file = Some (File b) \<and>
              imread cv (world (snd (main cv d s))) output_file = decode cv b)"
proof -
  have m: "main cv d s = (Returned, save_image cv p output_file
             (emit INFO MsgPanoramaCreated (record_calls (map CallImread fs @ [CallStitch (length fs)])
               (emit INFO (MsgStitching (length fs)) (record_calls [CallListdir d] s)))))"
    using main_loaded [OF assms(1-4)] by (simp add: Let_def)
  have "imwrite cv output_file p (world s) = (True, world (snd (main cv d s)))"
    using imwrite_fst_True [OF assms(5)] m by simp
  then obtain b where "encode cv output_file p = Some b"
    "lookup_path (world (snd (main cv d s))) output_file = Some (File b)"
    by (blast dest: lookup_path_imwrite)
  with m show ?thesis by (simp add: imread_def)
qed

theorem main_success_output_witness:
  "discovered (world demo_rt) ''/photos'' = [''/photos/a.jpg'', ''/photos/B.PNG''] \<and>
   [''/photos/a.jpg'', ''/photos/B.PNG''] \<noteq> [] \<and>
   spec_load demo_cv (world demo_rt) [''/photos/a.jpg'', ''/photos/B.PNG''] = Inr [1, 2] \<and>
   stitch demo_cv [1, 2] = (stitcher_OK, Some 3) \<and>
   fst (imwrite demo_cv output_file 3 (world demo_rt)) \<and>
   fst (main demo_cv ''/photos'' demo_rt) = Returned \<and>
   calls (snd (main demo_cv ''/photos'' demo_rt)) =
     calls demo_rt @ CallListdir ''/photos'' # map CallImread [''/photos/a.jpg'', ''/photos/B.PNG''] @
       [CallStitch (length [''/photos/a.jpg'', ''/photos/B.PNG'']), CallImwrite output_file] \<and>
   (\<exists>b. encode demo_cv output_file 3 = Some b \<and>
        lookup_path (world (snd (main demo_cv ''/photos'' demo_rt))) output_file = Some (File b) \<and>
        imread demo_cv (world (snd (main demo_cv ''/photos'' demo_rt))) output_file = decode demo_cv b)"
proof -
  have h1: "discovered (world demo_rt) ''/photos'' = [''/photos/a.jpg'', ''/photos/B.PNG'']" by code_simp
  have h2: "[''/photos/a.jpg'', ''/photos/B.PNG''] \<noteq> []" by simp
  have h3: "spec_load demo_cv (world demo_rt) [''/photos/a.jpg'', ''/photos/B.PNG''] = Inr [1, 2]"
    by code_simp
  have h4: "stitch demo_cv [1, 2] = (stitcher_OK, Some 3)" by (simp add: demo_cv_def stitcher_OK_def)
  have h5: "fst (imwrite demo_cv output_file 3 (world demo_rt))" by code_simp
  show ?thesis using main_success_output [OF h1 h2 h3 h4 h5] h1 h2 h3 h4 h5 by blast
qed

text \<open>
  C12. Exit status (spec 7 asks for a non-zero status on every error): the process
  exits with status 1 only when \<open>os.listdir\<close> raises; no images, a file that does
  not load, an engine failure and a failed write all end with status 0.
\<close>

theorem main_exit_code:
  "exit_code (fst (main cv d s)) = (case listdir (world s) d of Inl _ \<Rightarrow> 1 | Inr _ \<Rightarrow> 0)"
proof (cases "listdir (world s) d")
  case (Inl e)
  then show ?thesis by (simp add: main_raised exit_code_def)
next
  case (Inr names)
  then show ?thesis
    by (cases "filter is_image_name names = []")
       (simp_all add: main_no_files main_files exit_code_def split: prod.splits option.splits)
qed

text \<open>
  C13. Frame: a run changes no directory but the working directory, where
  \<open>panorama_output.jpg\<close> is written; in particular the input directory is left as it
  was unless it is the working directory.
\<close>

theorem main_frame:
  assumes "k \<noteq> cwd (world s)"
  shows "map_of (dirs (world (snd (main cv d s)))) k = map_of (dirs (world s)) k"
proof -
  have "k \<noteq> dir_key (world s) []"
    using assms by (simp add: dir_key_Nil)
  then have "map_of (dirs (snd (imwrite cv output_file p (world s)))) k = map_of (dirs (world s)) k"
    for p by (rule imwrite_other_dirs [OF posix_split_output_file])
  with main_world_cases [of cv d s] show ?thesis by auto
qed

theorem main_frame_witness:
  "''/photos'' \<noteq> cwd (world demo_rt) \<and>
   map_of (dirs (world (snd (main demo_cv ''/photos'' demo_rt)))) ''/photos'' =
     map_of (dirs (world demo_rt)) ''/photos''"
proof -
  have h: "''/photos'' \<noteq> cwd (world demo_rt)" by (simp add: demo_rt_def demo_world_def)
  show ?thesis using main_frame [OF h, of demo_cv "''/photos''"] h by blast
qed

text \<open>
  C14. Idempotence (spec 8), when the input directory is not the working directory: a
  second run on the file system the first one left behind leaves it exactly as it was,
  whatever the first run did (it overwrites the output with the same bytes, or again
  writes nothing).
\<close>

theorem main_idempotent:
  assumes "wf_world (world s)" "dir_key (world s) d \<noteq> cwd (world s)"
  shows "world (snd (main cv d (snd (main cv d s)))) = world (snd (main cv d s))"
proof -
  let ?w = "world s" and ?s1 = "snd (main cv d s)"
  let ?fs = "discovered ?w d"
  have cwd: "cwd (world ?s1) = cwd ?w"
    and dir: "map_of (dirs (world ?s1)) (dir_key ?w d) = map_of (dirs ?w) (dir_key ?w d)"
    using main_keeps_input_dir [OF assms(2)] by blast+
  have disc: "discovered (world ?s1) d = ?fs"
    using discovered_same_dir [OF cwd dir] .
  have reads: "imread cv (world ?s1) p = imread cv ?w p" if "p \<in> set ?fs" for p
    using imread_discovered_same_dir [OF assms(1) cwd dir that] .
  then have img: "imread cv (world ?s1) ` set ?fs = imread cv ?w ` set ?fs"
    and args: "map (\<lambda>p. the (imread cv (world ?s1) p)) ?fs = map (\<lambda>p. the (imread cv ?w p)) ?fs"
    by auto
  define r where "r = stitch cv (map (\<lambda>p. the (imread cv ?w p)) ?fs)"
  define C where "C \<longleftrightarrow> ?fs \<noteq> [] \<and> None \<notin> imread cv ?w ` set ?fs \<and> fst r = stitcher_OK \<and> snd r \<noteq> None"
  have w1: "world ?s1 = (if C then snd (imwrite cv output_file (the (snd r)) ?w) else ?w)"
    using main_world [of cv d s] by (simp only: Let_def C_def r_def)
  have w2: "world (snd (main cv d ?s1)) =
      (if C then snd (imwrite cv output_file (the (snd r)) (world ?s1)) else world ?s1)"
    using main_world [of cv d ?s1] by (simp only: Let_def C_def r_def disc img args)
  show ?thesis
  proof (cases C)
    case True
    with w1 w2 show ?thesis by (simp add: imwrite_twice)
  next
    case False
    with w2 show ?thesis by simp
  qed
qed

theorem main_idempotent_witness:
  "wf_world (world demo_rt) \<and> dir_key (world demo_rt) ''/photos'' \<noteq> cwd (world demo_rt) \<and>
   world (snd (main demo_cv ''/photos'' (snd (main demo_cv ''/photos'' demo_rt)))) =
     world (snd (main demo_cv ''/photos'' demo_rt))"
proof -
  have h1: "wf_world (world demo_rt)" by code_simp
  have h2: "dir_key (world demo_rt) ''/photos'' \<noteq> cwd (world demo_rt)" by code_simp
  show ?thesis using main_idempotent [OF h1 h2, of demo_cv] h1 h2 by blast
qed

lemma posix_join_inj:
  assumes "valid_name x" "valid_name y" "posix_join d x = posix_join d y"
  shows "x = y"
proof -
  have "hd x \<noteq> slash" "hd y \<noteq> slash" using assms(1,2) by (auto simp: valid_name_def dest: hd_in_set)
  with assms show ?thesis by (auto simp: posix_join_def valid_name_def split: if_splits)
qed

lemma listdir_after_write:
  assumes "listdir w d = Inr names" "map_of (dirs w) (dir_key w d) = Some dr"
  shows "listdir (w\<lparr>dirs := put_entry (dir_key w d) (dr\<lparr>entries := es\<rparr>) (dirs w)\<rparr>) d = Inr (map fst es)"
  using assms by (auto simp: listdir_Inr_iff)

text \<open>
  C15. A second run in the working directory sees the first run's output: when the
  input directory is the working directory and a run stitches and writes, the next
  discovery of that directory is the previous one, with \<open>panorama_output.jpg\<close>
  appended at the end unless it was already listed (then the list is unchanged and the
  file overwritten). So the next run stitches the previous panorama as one more input.
\<close>

theorem main_rerun_in_cwd:
  assumes "wf_world (world s)" "dir_key (world s) d = cwd (world s)"
    "discovered (world s) d = fs" "fs \<noteq> []" "spec_load cv (world s) fs = Inr imgs"
    "stitch cv imgs = (stitcher_OK, Some p)" "fst (imwrite cv output_file p (world s))"
  shows "discovered (world (snd (main cv d s))) d =
           (if posix_join d output_file \<in> set fs then fs else fs @ [posix_join d output_file])"
proof -
  let ?w = "world s"
  have "world (snd (main cv d s)) = snd (imwrite cv output_file p ?w)"
    using main_loaded [OF assms(3-6)] by (simp add: Let_def)
  then have w: "imwrite cv output_file p ?w = (True, world (snd (main cv d s)))"
    using imwrite_fst_True [OF assms(7)] by simp
  obtain h t dr b where ht: "posix_split output_file = (h, t)"
    and dr: "map_of (dirs ?w) (dir_key ?w h) = Some dr"
    and w': "world (snd (main cv d s)) =
      ?w\<lparr>dirs := put_entry (dir_key ?w h) (dr\<lparr>entries := put_entry t (File b) (entries dr)\<rparr>) (dirs ?w)\<rparr>"
    by (rule imwrite_True [OF w])
  from ht have h: "h = []" "t = output_file" by (simp_all add: posix_split_output_file)
  then have k: "dir_key ?w h = dir_key ?w d" using assms(2) by (simp add: dir_key_Nil)
  obtain names where ld: "listdir ?w d = Inr names" and ne: "filter is_image_name names \<noteq> []"
    using assms(3,4) by (auto elim: discovered_nonempty)
  from ld dr k have names: "names = map fst (entries dr)" by (auto simp: listdir_Inr_iff)
  have fs: "fs = map (posix_join d) (filter is_image_name names)"
    using assms(3) ld by (simp add: discovered_def)
  have ld': "listdir (world (snd (main cv d s))) d = Inr (map fst (put_entry output_file (File b) (entries dr)))"
    using listdir_after_write [OF ld, of dr] dr k h w' by simp
  have io: "is_image_name output_file" by (simp add: output_file_def is_image_name_def supported_extensions_def py_endswith_any_def py_endswith_def py_lower_def py_lower_char_def)
  have vn: "\<forall>f \<in> set names. valid_name f"
    using listdir_valid_names [OF assms(1) ld] by blast
  have vo: "valid_name output_file" by (simp add: output_file_def valid_name_def)
  show ?thesis
  proof (cases "output_file \<in> set names")
    case True
    then have "map_of (entries dr) output_file \<noteq> None" using names by (auto simp: map_of_eq_None_iff)
    then have "map fst (put_entry output_file (File b) (entries dr)) = names"
      using names by (simp add: put_entry_existing)
    moreover have "posix_join d output_file \<in> set fs" using True io fs by simp
    ultimately show ?thesis using ld' fs by (simp add: discovered_def)
  next
    case False
    then have "map_of (entries dr) output_file = None" using names by (simp add: map_of_eq_None_iff)
    then have "map fst (put_entry output_file (File b) (entries dr)) = names @ [output_file]"
      using names by (simp add: put_entry_new)
    moreover have "posix_join d output_file \<notin> set fs"
      using False fs vn vo posix_join_inj by fastforce
    ultimately show ?thesis using ld' fs io by (simp add: discovered_def)
  qed
qed

theorem main_rerun_in_cwd_witness:
  "wf_world (world demo_cwd_rt) \<and> dir_key (world demo_cwd_rt) ''.'' = cwd (world demo_cwd_rt) \<and>
   discovered (world demo_cwd_rt) ''.'' = [''./a.jpg'', ''./b.jpg''] \<and> [''./a.jpg'', ''./b.jpg''] \<noteq> [] \<and>
   spec_load demo_cv (world demo_cwd_rt) [''./a.jpg'', ''./b.jpg''] = Inr [1, 2] \<and>
   stitch demo_cv [1, 2] = (stitcher_OK, Some 3) \<and> fst (imwrite demo_cv output_file 3 (world demo_cwd_rt)) \<and>
   discovered (world (snd (main demo_cv ''.'' demo_cwd_rt))) ''.'' =
     (if posix_join ''.'' output_file \<in> set [''./a.jpg'', ''./b.jpg''] then [''./a.jpg'', ''./b.jpg'']
      else [''./a.jpg'', ''./b.jpg''] @ [posix_join ''.'' output_file])"
proof -
  have h1: "wf_world (world demo_cwd_rt)" by code_simp
  have h2: "dir_key (world demo_cwd_rt) ''.'' = cwd (world demo_cwd_rt)" by code_simp
  have h3: "discovered (world demo_cwd_rt) ''.'' = [''./a.jpg'', ''./b.jpg'']" by code_simp
  have h4: "[''./a.jpg'', ''./b.jpg''] \<noteq> []" by simp
  have h5: "spec_load demo_cv (world demo_cwd_rt) [''./a.jpg'', ''./b.jpg''] = Inr [1, 2]" by code_simp
  have h6: "stitch demo_cv [1, 2] = (stitcher_OK, Some 3)" by (simp add: demo_cv_def stitcher_OK_def)
  have h7: "fst (imwrite demo_cv output_file 3 (world demo_cwd_rt))" by code_simp
  show ?thesis using main_rerun_in_cwd [OF h1 h2 h3 h4 h5 h6 h7] h1 h2 h3 h4 h5 h6 h7 by blast
qed

text \<open>
  C21. An engine answer outside its contract, \<open>Stitcher_OK\<close> without a raster, makes
  the run log both that the panorama was created and that creating it failed, one after
  the other, and write nothing (the specification does not cover this answer).
\<close>

theorem main_ok_without_panorama:
  assumes "discovered (world s) d = fs" "fs \<noteq> []" "spec_load cv (world s) fs = Inr imgs"
    "stitch cv imgs = (stitcher_OK, None)"
  shows "world (snd (main cv d s)) = world s \<and>
         drop (length (logs s)) (logs (snd (main cv d s))) =
           [(INFO, MsgStitching (length fs)), (INFO, MsgPanoramaCreated), (ERROR, MsgPanoramaFailed)]"
  using main_loaded [OF assms] by (simp add: Let_def stitcher_OK_def)

theorem main_ok_without_panorama_witness:
  "discovered (world demo_rt) ''/photos'' = [''/photos/a.jpg'', ''/photos/B.PNG''] \<and>
   [''/photos/a.jpg'', ''/photos/B.PNG''] \<noteq> [] \<and>
   spec_load (demo_cv\<lparr>stitch := \<lambda>imgs. (0, None)\<rparr>) (world demo_rt) [''/photos/a.jpg'', ''/photos/B.PNG''] = Inr [1, 2] \<and>
   stitch (demo_cv\<lparr>stitch := \<lambda>imgs. (0, None)\<rparr>) [1, 2] = (stitcher_OK, None) \<and>
   world (snd (main (demo_cv\<lparr>stitch := \<lambda>imgs. (0, None)\<rparr>) ''/photos'' demo_rt)) = world demo_rt \<and>
   drop (length (logs demo_rt)) (logs (snd (main (demo_cv\<lparr>stitch := \<lambda>imgs. (0, None)\<rparr>) ''/photos'' demo_rt))) =
     [(INFO, MsgStitching (length [''/photos/a.jpg'', ''/photos/B.PNG''])), (INFO, MsgPanoramaCreated),
      (ERROR, MsgPanoramaFailed)]"
proof -
  have h1: "discovered (world demo_rt) ''/photos'' = [''/photos/a.jpg'', ''/photos/B.PNG'']" by code_simp
  have h2: "[''/photos/a.jpg'', ''/photos/B.PNG''] \<noteq> []" by simp
  have h3: "spec_load (demo_cv\<lparr>stitch := \<lambda>imgs. (0, None)\<rparr>) (world demo_rt)
              [''/photos/a.jpg'', ''/photos/B.PNG''] = Inr [1, 2]" by code_simp
  have h4: "stitch (demo_cv\<lparr>stitch := \<lambda>imgs. (0, None)\<rparr>) [1, 2] = (stitcher_OK, None)"
    by (simp add: stitcher_OK_def)
  show ?thesis using main_ok_without_panorama [OF h1 h2 h3 h4] h1 h2 h3 h4 by blast
qed

text \<open>
  C22. A subdirectory whose name ends in an image extension is discovered like a file
  (spec 6 only says files with other extensions are ignored); \<open>cv2.imread\<close> cannot
  read it, so the whole run fails before the engine is called and writes nothing.
\<close>

theorem main_image_named_directory:
  assumes "wf_world (world s)" "map_of (dirs (world s)) (dir_key (world s) d) = Some dr"
    "map_of (entries dr) x = Some Dir" "is_image_name x" "d \<noteq> []" "readable dr"
  shows "world (snd (main cv d s)) = world s \<and>
         calls (snd (main cv d s)) = calls s @ CallListdir d # map CallImread (discovered (world s) d) \<and>
         last (logs (snd (main cv d s))) = (ERROR, MsgPanoramaFailed)"
proof -
  have ld: "listdir (world s) d = Inr (map fst (entries dr))"
    using assms(2,5,6) by (simp add: listdir_def)
  have x: "x \<in> set (map fst (entries dr))"
    using assms(3) by (force dest: map_of_SomeD)
  have v: "valid_name x" using listdir_valid_names [OF assms(1) ld x] by blast
  have p: "posix_join d x \<in> set (discovered (world s) d)"
    using ld x assms(4) by (simp add: discovered_def)
  then have ne: "discovered (world s) d \<noteq> []" by auto
  have "imread cv (world s) (posix_join d x) = None"
    using lookup_path_join [OF assms(5) v assms(2)] assms(3) by (simp add: imread_def)
  with p have "None \<in> imread cv (world (record_calls [CallListdir d] s)) ` set (discovered (world s) d)"
    by force
  then show ?thesis
    by (simp add: main_discovered [OF ne] create_panorama_load_fail)
qed

theorem main_image_named_directory_witness:
  "wf_world (world demo_rt) \<and>
   map_of (dirs (world demo_rt)) (dir_key (world demo_rt) ''/mixed'') =
     Some \<lparr>entries = [(''a.jpg'', File 1), (''b.jpg'', File 2), (''thumbs.jpg'', Dir)], writable = True, readable = True\<rparr> \<and>
   map_of (entries \<lparr>entries = [(''a.jpg'', File (1::nat)), (''b.jpg'', File 2), (''thumbs.jpg'', Dir)],
                    writable = True, readable = True\<rparr>) ''thumbs.jpg'' = Some Dir \<and>
   is_image_name ''thumbs.jpg'' \<and> ''/mixed'' \<noteq> [] \<and>
   readable \<lparr>entries = [(''a.jpg'', File (1::nat)), (''b.jpg'', File 2), (''thumbs.jpg'', Dir)],
              writable = True, readable = True\<rparr> \<and>
   world (snd (main demo_cv ''/mixed'' demo_rt)) = world demo_rt \<and>
   calls (snd (main demo_cv ''/mixed'' demo_rt)) =
     calls demo_rt @ CallListdir ''/mixed'' # map CallImread (discovered (world demo_rt) ''/mixed'') \<and>
   last (logs (snd (main demo_cv ''/mixed'' demo_rt))) = (ERROR, MsgPanoramaFailed)"
proof -
  have h1: "wf_world (world demo_rt)" by code_simp
  have h2: "map_of (dirs (world demo_rt)) (dir_key (world demo_rt) ''/mixed'') =
     Some \<lparr>entries = [(''a.jpg'', File 1), (''b.jpg'', File 2), (''thumbs.jpg'', Dir)], writable = True, readable = True\<rparr>"
    by code_simp
  have h3: "map_of (entries \<lparr>entries = [(''a.jpg'', File (1::nat)), (''b.jpg'', File 2), (''thumbs.jpg'', Dir)],
                    writable = True, readable = True\<rparr>) ''thumbs.jpg'' = Some Dir" by simp
  have h4: "is_image_name ''thumbs.jpg''" by code_simp
  have h5: "''/mixed'' \<noteq> []" by simp
  have h6: "readable \<lparr>entries = [(''a.jpg'', File (1::nat)), (''b.jpg'', File 2), (''thumbs.jpg'', Dir)],
              writable = True, readable = True\<rparr>" by simp
  show ?thesis using main_image_named_directory [OF h1 h2 h3 h4 h5 h6, of demo_cv] h1 h2 h3 h4 h5 h6 by blast
qed

text \<open>
  C28. A file given as the input directory: when \<open>-i\<close> names a regular file,
  \<open>os.listdir\<close> raises \<open>NotADirectoryError\<close>, which nothing catches; the run
  ends with exit status 1 after the one listing call, with nothing logged and nothing
  read or written (spec 7 asks for an \<open>InputError\<close> report instead).
\<close>

theorem main_not_a_directory:
  assumes "d \<noteq> []" "map_of (dirs (world s)) (dir_key (world s) d) = None"
    "lookup_path (world s) (rstrip_slash d) = Some (File b)"
  shows "main cv d s = (Raised (NotADirectoryError d), record_calls [CallListdir d] s) \<and>
         exit_code (fst (main cv d s)) = 1"
proof -
  have "listdir (world s) d = Inl (NotADirectoryError d)"
    using assms by (simp add: listdir_def)
  then show ?thesis by (simp add: main_raised exit_code_def)
qed

theorem main_not_a_directory_witness:
  "''/photos/a.jpg'' \<noteq> [] \<and>
   map_of (dirs (world demo_rt)) (dir_key (world demo_rt) ''/photos/a.jpg'') = None \<and>
   lookup_path (world demo_rt) (rstrip_slash ''/photos/a.jpg'') = Some (File 1) \<and>
   main demo_cv ''/photos/a.jpg'' demo_rt =
     (Raised (NotADirectoryError ''/photos/a.jpg''), record_calls [CallListdir ''/photos/a.jpg''] demo_rt) \<and>
   exit_code (fst (main demo_cv ''/photos/a.jpg'' demo_rt)) = 1"
proof -
  have h1: "''/photos/a.jpg'' \<noteq> []" by simp
  have h2: "map_of (dirs (world demo_rt)) (dir_key (world demo_rt) ''/photos/a.jpg'') = None" by code_simp
  have h3: "lookup_path (world demo_rt) (rstrip_slash ''/photos/a.jpg'') = Some (File 1)" by code_simp
  show ?thesis using main_not_a_directory [OF h1 h2 h3] h1 h2 h3 by blast
qed

end
