(* ===== verification/Run.thy ===== *)
theory Run
  imports Pipeline
begin

text \<open>
  The run of \<open>src/main.py\<close> as a state machine: the control flow of \<open>main\<close> and
  \<open>create_panorama\<close> (lines 13--33 and 59--73) cut into its steps, each an
  introduction rule of \<open>run_step\<close> with the code's condition as premise and the
  code's effects on the run state as its conclusion. A phase carries what the code
  carries between its statements (the discovered paths, the decoded images, the
  panorama). Beside it, the specification's state graph (spec 4.3, with the
  \<open>InputError\<close> exit of spec 7), and the map of phases onto its states. The
  lemmas show the steps deterministic, strictly advancing in rank, and total on every
  phase that is not final (\<open>run_progress\<close>), so every run ends.
\<close>

datatype 'img phase =
    Start string
  | ScanRaised os_error
  | NoInput
  | Loading "string list"
  | LoadFailed
  | Stitching "'img list"
  | StitchFailed int
  | NoPanorama
  | Writing 'img
  | Done bool

inductive run_step :: "('b, 'img) cv2 \<Rightarrow> 'img phase \<times> 'b rt \<Rightarrow> 'img phase \<times> 'b rt \<Rightarrow> bool"
  for cv :: "('b, 'img) cv2" where
  scan_raised: "fst (scan_images d s) = Inl e \<Longrightarrow>
     run_step cv (Start d, s) (ScanRaised e, snd (scan_images d s))"
| scan_empty: "fst (scan_images d s) = Inr [] \<Longrightarrow>
     run_step cv (Start d, s) (NoInput, emit ERROR MsgNoImagesExit (snd (scan_images d s)))"
| scan_found: "fst (scan_images d s) = Inr fs \<Longrightarrow> fs \<noteq> [] \<Longrightarrow>
     run_step cv (Start d, s) (Loading fs, snd (scan_images d s))"
| load_failed: "None \<in> imread cv (world s) ` set fs \<Longrightarrow>
     run_step cv (Loading fs, s)
       (LoadFailed, emit ERROR MsgPanoramaFailed (emit ERROR MsgLoadFailed
          (record_calls (map CallImread fs) (emit INFO (MsgStitching (length fs)) s))))"
| loaded: "None \<notin> imread cv (world s) ` set fs \<Longrightarrow>
     run_step cv (Loading fs, s)
       (Stitching (map (\<lambda>p. the (imread cv (world s) p)) fs),
        record_calls (map CallImread fs) (emit INFO (MsgStitching (length fs)) s))"
| stitch_failed: "stitch cv imgs = (st, pano) \<Longrightarrow> st \<noteq> stitcher_OK \<Longrightarrow>
     run_step cv (Stitching imgs, s)
       (StitchFailed st, emit ERROR MsgPanoramaFailed (emit ERROR (MsgStitchFailed st)
          (record_calls [CallStitch (length imgs)] s)))"
| stitch_no_panorama: "stitch cv imgs = (stitcher_OK, None) \<Longrightarrow>
     run_step cv (Stitching imgs, s)
       (NoPanorama, emit ERROR MsgPanoramaFailed (emit INFO MsgPanoramaCreated
          (record_calls [CallStitch (length imgs)] s)))"
| stitched: "stitch cv imgs = (stitcher_OK, Some p) \<Longrightarrow>
     run_step cv (Stitching imgs, s)
       (Writing p, emit INFO MsgPanoramaCreated (record_calls [CallStitch (length imgs)] s))"
| written: "run_step cv (Writing p, s)
     (Done (fst (imwrite cv output_file p (world s))), save_image cv p output_file s)"

fun terminal :: "'img phase \<Rightarrow> bool" where
  "terminal (Start _) = False"
| "terminal (Loading _) = False"
| "terminal (Stitching _) = False"
| "terminal (Writing _) = False"
| "terminal _ = True"

fun exit_of :: "'img phase \<Rightarrow> exit_status" where
  "exit_of (ScanRaised e) = Raised e"
| "exit_of _ = Returned"

fun phase_rank :: "'img phase \<Rightarrow> nat" where
  "phase_rank (Start _) = 0"
| "phase_rank (ScanRaised _) = 1"
| "phase_rank NoInput = 1"
| "phase_rank (Loading _) = 1"
| "phase_rank LoadFailed = 2"
| "phase_rank (Stitching _) = 2"
| "phase_rank (StitchFailed _) = 3"
| "phase_rank NoPanorama = 3"
| "phase_rank (Writing _) = 3"
| "phase_rank (Done _) = 4"

section \<open>The specification's state graph\<close>

datatype spec_state =
    START | INPUT_ERROR | LOADING | LOAD_FAILED | LOADED | STITCHING | STITCH_FAILED
  | STITCHED | WRITING | WRITE_FAILED | DONE

fun spec_edge :: "spec_state \<Rightarrow> spec_state \<Rightarrow> bool" where
  "spec_edge START t = (t = INPUT_ERROR \<or> t = LOADING)"
| "spec_edge LOADING t = (t = LOAD_FAILED \<or> t = LOADED)"
| "spec_edge LOADED t = (t = STITCHING)"
| "spec_edge STITCHING t = (t = STITCH_FAILED \<or> t = STITCHED)"
| "spec_edge STITCHED t = (t = WRITING)"
| "spec_edge WRITING t = (t = WRITE_FAILED \<or> t = DONE)"
| "spec_edge _ t = False"

text \<open>
  A phase is the specification state it stands for. Images in hand before the engine
  call are \<open>STITCHING\<close> (reached through \<open>LOADED\<close>); an \<open>OK\<close> without a raster is a
  stitch failure; \<open>Done False\<close>, a write that \<open>cv2.imwrite\<close> refused, is
  \<open>WRITE_FAILED\<close>.
\<close>

fun abs_phase :: "'img phase \<Rightarrow> spec_state" where
  "abs_phase (Start _) = START"
| "abs_phase (ScanRaised _) = INPUT_ERROR"
| "abs_phase NoInput = INPUT_ERROR"
| "abs_phase (Loading _) = LOADING"
| "abs_phase LoadFailed = LOAD_FAILED"
| "abs_phase (Stitching _) = STITCHING"
| "abs_phase (StitchFailed _) = STITCH_FAILED"
| "abs_phase NoPanorama = STITCH_FAILED"
| "abs_phase (Writing _) = WRITING"
| "abs_phase (Done ok) = (if ok then DONE else WRITE_FAILED)"

text \<open>
  What every configuration reachable from a start state \<open>s0\<close> keeps: the log and the
  trace only grow, the working directory stays, a well-formed file system stays well
  formed, and the file system changes only in the final write.
\<close>

definition run_inv :: "'b rt \<Rightarrow> 'img phase \<times> 'b rt \<Rightarrow> bool" where
  "run_inv s0 c \<longleftrightarrow>
     prefix (logs s0) (logs (snd c)) \<and> prefix (calls s0) (calls (snd c)) \<and>
     cwd (world (snd c)) = cwd (world s0) \<and>
     (wf_world (world s0) \<longrightarrow> wf_world (world (snd c))) \<and>
     (world (snd c) \<noteq> world s0 \<longrightarrow> (\<exists>ok. fst c = Done ok))"

section \<open>Inversion and determinism\<close>

inductive_cases run_step_StartE: "run_step cv (Start d, s) c"
inductive_cases run_step_LoadingE: "run_step cv (Loading fs, s) c"
inductive_cases run_step_StitchingE: "run_step cv (Stitching imgs, s) c"
inductive_cases run_step_WritingE: "run_step cv (Writing p, s) c"

lemma run_step_terminal_stuck: "terminal ph \<Longrightarrow> \<not> run_step cv (ph, s) c"
  by (cases ph) (auto elim: run_step.cases)

lemma run_step_det: "run_step cv c c1 \<Longrightarrow> run_step cv c c2 \<Longrightarrow> c1 = c2"
proof (induction rule: run_step.induct)
  case (scan_raised d s e)
  then show ?case by (auto elim: run_step_StartE)
next
  case (scan_empty d s)
  then show ?case by (auto elim: run_step_StartE)
next
  case (scan_found d s fs)
  then show ?case by (auto elim: run_step_StartE)
next
  case (load_failed s fs)
  then show ?case by (auto elim: run_step_LoadingE)
next
  case (loaded s fs)
  then show ?case by (auto elim: run_step_LoadingE)
next
  case (stitch_failed imgs st pano s)
  then show ?case by (auto elim: run_step_StitchingE)
next
  case (stitch_no_panorama imgs s)
  then show ?case by (auto elim: run_step_StitchingE)
next
  case (stitched imgs p s)
  then show ?case by (auto elim: run_step_StitchingE)
next
  case (written p s)
  then show ?case by (auto elim: run_step_WritingE)
qed

lemma run_step_rank: "run_step cv c c' \<Longrightarrow> phase_rank (fst c) < phase_rank (fst c')"
  by (induction rule: run_step.induct) auto

lemma phase_rank_le_4: "phase_rank ph \<le> 4"
  by (cases ph) auto

text \<open>Progress: every phase that is not final has a step, whatever the engine and the
  file system answer.\<close>

lemma run_progress:
  assumes "\<not> terminal ph"
  shows "\<exists>c'. run_step cv (ph, s) c'"
proof (cases ph)
  case (Start d)
  show ?thesis
  proof (cases "fst (scan_images d s)")
    case (Inl e) with Start show ?thesis by (blast intro: run_step.scan_raised)
  next
    case (Inr fs) with Start show ?thesis
      by (cases "fs = []") (blast intro: run_step.scan_empty run_step.scan_found)+
  qed
next
  case (Loading fs)
  then show ?thesis
    by (cases "None \<in> imread cv (world s) ` set fs") (blast intro: run_step.load_failed run_step.loaded)+
next
  case (Stitching imgs)
  obtain st pano where r: "stitch cv imgs = (st, pano)" by fastforce
  show ?thesis
  proof (cases "st = stitcher_OK")
    case True with r Stitching show ?thesis
      by (cases pano) (blast intro: run_step.stitch_no_panorama run_step.stitched)+
  next
    case False with r Stitching show ?thesis by (blast intro: run_step.stitch_failed)
  qed
next
  case (Writing p) then show ?thesis by (blast intro: run_step.written)
qed (use assms in simp_all)

section \<open>Every run follows \<open>main\<close>\<close>

lemma run_from_Stitching:
  "\<exists>ph. (run_step cv)\<^sup>*\<^sup>* (Stitching imgs, s) (ph,
      (let s3 = record_calls [CallStitch (length imgs)] s in
       case stitch cv imgs of (st, pano) \<Rightarrow>
         if st \<noteq> stitcher_OK then emit ERROR MsgPanoramaFailed (emit ERROR (MsgStitchFailed st) s3)
         else case pano of
           Some p \<Rightarrow> save_image cv p output_file (emit INFO MsgPanoramaCreated s3)
         | None \<Rightarrow> emit ERROR MsgPanoramaFailed (emit INFO MsgPanoramaCreated s3)))
    \<and> terminal ph \<and> exit_of ph = Returned"
proof -
  obtain st pano where r: "stitch cv imgs = (st, pano)" by fastforce
  show ?thesis
  proof (cases "st \<noteq> stitcher_OK")
    case True
    with r show ?thesis
      by (intro exI [of _ "StitchFailed st"]) (auto intro: run_step.stitch_failed)
  next
    case False
    show ?thesis
    proof (cases pano)
      case None
      with r False show ?thesis
        by (intro exI [of _ NoPanorama]) (auto intro: run_step.stitch_no_panorama)
    next
      case (Some p)
      let ?s3 = "emit INFO MsgPanoramaCreated (record_calls [CallStitch (length imgs)] s)"
      from r False Some have "run_step cv (Stitching imgs, s) (Writing p, ?s3)"
        by (auto intro: run_step.stitched)
      moreover have "run_step cv (Writing p, ?s3)
          (Done (fst (imwrite cv output_file p (world ?s3))), save_image cv p output_file ?s3)"
        by (rule run_step.written)
      ultimately show ?thesis using r False Some
        by (intro exI [of _ "Done (fst (imwrite cv output_file p (world ?s3)))"]) auto
    qed
  qed
qed

lemma run_main_path:
  "\<exists>ph. (run_step cv)\<^sup>*\<^sup>* (Start d, s) (ph, snd (main cv d s)) \<and> terminal ph \<and>
        exit_of ph = fst (main cv d s)"
proof (cases "listdir (world s) d")
  case (Inl e)
  then have scan: "scan_images d s = (Inl e, record_calls [CallListdir d] s)"
    by (rule scan_images_Inl)
  then have "run_step cv (Start d, s) (ScanRaised e, record_calls [CallListdir d] s)"
    using run_step.scan_raised [of d s e cv] by simp
  with Inl show ?thesis
    by (intro exI [of _ "ScanRaised e"]) (auto simp: main_raised)
next
  case (Inr names)
  show ?thesis
  proof (cases "filter is_image_name names = []")
    case True
    with Inr have "scan_images d s = (Inr [], emit WARNING MsgNoImageFiles (record_calls [CallListdir d] s))"
      by (simp add: scan_images_def)
    then have "run_step cv (Start d, s)
        (NoInput, emit ERROR MsgNoImagesExit (emit WARNING MsgNoImageFiles (record_calls [CallListdir d] s)))"
      using run_step.scan_empty [of d s cv] by simp
    with Inr True show ?thesis
      by (intro exI [of _ NoInput]) (auto simp: main_no_files)
  next
    case False
    let ?fs = "discovered (world s) d" and ?s1 = "record_calls [CallListdir d] s"
    have ne: "?fs \<noteq> []" using Inr False by (simp add: discovered_def)
    have scan: "scan_images d s = (Inr ?fs, ?s1)"
      using Inr False by (simp add: scan_images_def discovered_def Let_def)
    then have start: "run_step cv (Start d, s) (Loading ?fs, ?s1)"
      using ne run_step.scan_found [of d s ?fs cv] by simp
    show ?thesis
    proof (cases "None \<in> imread cv (world s) ` set ?fs")
      case True
      then have "run_step cv (Loading ?fs, ?s1) (LoadFailed, snd (main cv d s))"
        using run_step.load_failed [of cv ?s1 ?fs]
        by (simp add: main_discovered [OF ne] create_panorama_load_fail)
      with start True show ?thesis
        by (intro exI [of _ LoadFailed])
           (auto simp: main_discovered [OF ne] create_panorama_load_fail)
    next
      case False
      let ?imgs = "map (\<lambda>p. the (imread cv (world s) p)) ?fs"
      let ?s2 = "record_calls (map CallImread ?fs) (emit INFO (MsgStitching (length ?fs)) ?s1)"
      have load: "run_step cv (Loading ?fs, ?s1) (Stitching ?imgs, ?s2)"
        using run_step.loaded [of cv ?s1 ?fs] False by simp
      have sl: "spec_load cv (world s) ?fs = Inr ?imgs"
        using False by (simp add: spec_load_Inr_iff)
      obtain st pano where r: "stitch cv ?imgs = (st, pano)" by fastforce
      have m: "snd (main cv d s) =
        (let s3 = record_calls [CallStitch (length ?imgs)] ?s2 in
         case stitch cv ?imgs of (st, pano) \<Rightarrow>
           if st \<noteq> stitcher_OK then emit ERROR MsgPanoramaFailed (emit ERROR (MsgStitchFailed st) s3)
           else case pano of
             Some p \<Rightarrow> save_image cv p output_file (emit INFO MsgPanoramaCreated s3)
           | None \<Rightarrow> emit ERROR MsgPanoramaFailed (emit INFO MsgPanoramaCreated s3))"
        using main_loaded [OF refl ne sl r] r by (cases pano) (simp_all add: Let_def)
      obtain ph where ph: "(run_step cv)\<^sup>*\<^sup>* (Stitching ?imgs, ?s2) (ph, snd (main cv d s))"
        and t: "terminal ph" and x: "exit_of ph = Returned"
        using run_from_Stitching [of cv ?imgs ?s2] unfolding m [symmetric] by blast
      have "fst (main cv d s) = Returned"
        using main_loaded [OF refl ne sl r] by (simp add: Let_def split: option.splits)
      with start load ph t x show ?thesis
        by (intro exI [of _ ph]) (auto intro: converse_rtranclp_into_rtranclp)
    qed
  qed
qed

lemma relpowp_rank: "(run_step cv ^^ n) c c' \<Longrightarrow> phase_rank (fst c) + n \<le> phase_rank (fst c')"
proof (induction n arbitrary: c')
  case 0
  then show ?case by simp
next
  case (Suc n)
  then obtain c'' where "(run_step cv ^^ n) c c''" "run_step cv c'' c'" by auto
  with Suc.IH run_step_rank [of cv c'' c'] show ?case by fastforce
qed

lemma run_step_nonterminal: "run_step cv c c' \<Longrightarrow> \<not> terminal (fst c)"
  by (cases c) (auto dest: run_step_terminal_stuck)

lemma scan_found_demo:
  "run_step demo_cv (Start ''/photos'', demo_rt)
     (Loading [''/photos/a.jpg'', ''/photos/B.PNG''], snd (scan_images ''/photos'' demo_rt))"
proof (rule run_step.scan_found)
  show "fst (scan_images ''/photos'' demo_rt) = Inr [''/photos/a.jpg'', ''/photos/B.PNG'']" by code_simp
qed simp

lemma scan_images_logs_prefix: "prefix (logs s) (logs (snd (scan_images d s)))"
  by (simp add: scan_images_def Let_def split: sum.split)

lemma run_step_inv:
  assumes "run_step cv c c'" "run_inv s0 c"
  shows "run_inv s0 c'"
  using assms
proof (induction rule: run_step.induct)
  case (written p s)
  then show ?case by (auto simp: run_inv_def imwrite_wf intro: prefix_prefix)
qed (auto simp: run_inv_def intro: prefix_prefix prefix_order.trans [OF _ scan_images_logs_prefix])

section \<open>Correctness of the state machine\<close>

text \<open>
  The state machine and \<open>main\<close> agree: every run of \<open>run_step\<close> from
  \<open>Start d\<close> that reaches a terminal phase ends in the run state \<open>main\<close> computes,
  with the exit status the phase stands for. It is the bridge that makes the properties
  of the state machine below properties of \<open>main\<close>.
\<close>

lemma run_refines_main:
  assumes "(run_step cv)\<^sup>*\<^sup>* (Start d, s) (ph, s')" "terminal ph"
  shows "main cv d s = (exit_of ph, s')"
proof -
  obtain ph0 where p0: "(run_step cv)\<^sup>*\<^sup>* (Start d, s) (ph0, snd (main cv d s))"
    and t0: "terminal ph0" and x0: "exit_of ph0 = fst (main cv d s)"
    using run_main_path by blast
  have det: "\<And>x y z. run_step cv x y \<Longrightarrow> run_step cv x z \<Longrightarrow> y = z"
    by (rule run_step_det)
  have st: "\<And>c. \<not> run_step cv (ph, s') c" "\<And>c. \<not> run_step cv (ph0, snd (main cv d s)) c"
    using run_step_terminal_stuck [OF assms(2)] run_step_terminal_stuck [OF t0] by blast+
  have "(ph, s') = (ph0, snd (main cv d s))"
    by (rule star_det_terminal [OF det assms(1) p0 st])
  with x0 show ?thesis by (metis prod.collapse prod.inject)
qed

text \<open>
  C18. No retry (spec 4.2, 4.3): a step only leaves a phase that is not terminal, so
  every failure phase is final, and along any run the phases strictly advance, so no
  phase is ever entered twice.
\<close>

theorem run_no_retry:
  assumes "(run_step cv)\<^sup>+\<^sup>+ c c'"
  shows "\<not> terminal (fst c) \<and> phase_rank (fst c) < phase_rank (fst c') \<and> fst c' \<noteq> fst c"
proof -
  have "\<not> terminal (fst c) \<and> phase_rank (fst c) < phase_rank (fst c')"
    using assms
  proof (induction rule: tranclp_induct)
    case (base y)
    then show ?case using run_step_rank run_step_nonterminal by blast
  next
    case (step y z)
    then show ?case using run_step_rank [of cv y z] by linarith
  qed
  then show ?thesis by auto
qed

theorem run_no_retry_witness:
  "(run_step demo_cv)\<^sup>+\<^sup>+ (Start ''/photos'', demo_rt)
     (Loading [''/photos/a.jpg'', ''/photos/B.PNG''], snd (scan_images ''/photos'' demo_rt)) \<and>
   \<not> terminal (fst (Start ''/photos'' :: nat phase, demo_rt)) \<and>
   phase_rank (fst (Start ''/photos'' :: nat phase, demo_rt)) <
     phase_rank (fst (Loading [''/photos/a.jpg'', ''/photos/B.PNG''] :: nat phase, snd (scan_images ''/photos'' demo_rt))) \<and>
   fst (Loading [''/photos/a.jpg'', ''/photos/B.PNG''] :: nat phase, snd (scan_images ''/photos'' demo_rt)) \<noteq>
     fst (Start ''/photos'' :: nat phase, demo_rt)"
proof -
  have h: "(run_step demo_cv)\<^sup>+\<^sup>+ (Start ''/photos'', demo_rt)
     (Loading [''/photos/a.jpg'', ''/photos/B.PNG''], snd (scan_images ''/photos'' demo_rt))"
    using scan_found_demo by (rule tranclp.r_into_trancl)
  from h run_no_retry [OF h] show ?thesis by (rule conjI)
qed

text \<open>
  C19. Every run is short: a run of the state machine has at most four steps (listing,
  loading, the engine call, the write), whatever the engine and the file system do.
\<close>

theorem run_at_most_four_steps:
  assumes "(run_step cv ^^ n) c c'"
  shows "n \<le> 4"
  using relpowp_rank [OF assms] phase_rank_le_4 [of "fst c'"] by linarith

theorem run_at_most_four_steps_witness:
  "(run_step demo_cv ^^ 1) (Start ''/photos'', demo_rt)
     (Loading [''/photos/a.jpg'', ''/photos/B.PNG''], snd (scan_images ''/photos'' demo_rt)) \<and>
   (1::nat) \<le> 4"
proof -
  have h: "(run_step demo_cv ^^ 1) (Start ''/photos'', demo_rt)
     (Loading [''/photos/a.jpg'', ''/photos/B.PNG''], snd (scan_images ''/photos'' demo_rt))"
    using scan_found_demo by auto
  show ?thesis using run_at_most_four_steps [OF h] h by blast
qed

text \<open>
  C20. The code's steps follow the specification's state graph (spec 4.3): each step of
  \<open>run_step\<close> is a non-empty path of the graph between the states its phases stand
  for (loading to stitching passes \<open>LOADED\<close>, stitching to writing passes
  \<open>STITCHED\<close>).
\<close>

theorem run_step_follows_spec_graph:
  assumes "run_step cv c c'"
  shows "spec_edge\<^sup>+\<^sup>+ (abs_phase (fst c)) (abs_phase (fst c'))"
  using assms
proof (induction rule: run_step.induct)
  case (loaded s fs)
  have "spec_edge\<^sup>+\<^sup>+ LOADING LOADED" by (rule tranclp.r_into_trancl) simp
  then have "spec_edge\<^sup>+\<^sup>+ LOADING STITCHING" by (rule tranclp.trancl_into_trancl) simp
  then show ?case by simp
next
  case (stitched imgs p s)
  have "spec_edge\<^sup>+\<^sup>+ STITCHING STITCHED" by (rule tranclp.r_into_trancl) simp
  then have "spec_edge\<^sup>+\<^sup>+ STITCHING WRITING" by (rule tranclp.trancl_into_trancl) simp
  then show ?case by simp
qed (auto intro: tranclp.r_into_trancl)

theorem run_step_follows_spec_graph_witness:
  "run_step demo_cv (Start ''/photos'', demo_rt)
     (Loading [''/photos/a.jpg'', ''/photos/B.PNG''], snd (scan_images ''/photos'' demo_rt)) \<and>
   spec_edge\<^sup>+\<^sup>+ (abs_phase (fst (Start ''/photos'' :: nat phase, demo_rt)))
     (abs_phase (fst (Loading [''/photos/a.jpg'', ''/photos/B.PNG''] :: nat phase, snd (scan_images ''/photos'' demo_rt))))"
  using run_step_follows_spec_graph [OF scan_found_demo] scan_found_demo by blast

text \<open>
  C27. Every run ends (liveness): from any phase and run state, whatever the engine, the
  codecs and the file system answer, the steps reach a final phase. With the
  determinism of the steps, the run from \<open>Start d\<close> reaches exactly the final phase
  that \<open>run_refines_main\<close> relates to \<open>main\<close>.
\<close>

theorem run_reaches_terminal: "\<exists>c'. (run_step cv)\<^sup>*\<^sup>* c c' \<and> terminal (fst c')"
proof (induction "4 - phase_rank (fst c)" arbitrary: c rule: less_induct)
  case less
  show ?case
  proof (cases "terminal (fst c)")
    case True then show ?thesis by blast
  next
    case False
    then obtain c1 where step: "run_step cv c c1"
      using run_progress [of "fst c" cv "snd c"] by auto
    have "4 - phase_rank (fst c1) < 4 - phase_rank (fst c)"
      using run_step_rank [OF step] phase_rank_le_4 [of "fst c1"] by simp
    then obtain c' where "(run_step cv)\<^sup>*\<^sup>* c1 c'" "terminal (fst c')" using less by blast
    with step show ?thesis by (blast intro: converse_rtranclp_into_rtranclp)
  qed
qed

text \<open>
  C30. Invariant of the run (spec 4.3, 6): along every run of the state machine from a
  start state, the log and the call trace only grow, the working directory stays, a
  well-formed file system stays well formed, and the file system differs from the one
  the run started with only once the run has reached its final write.
\<close>

theorem run_reach_invariant:
  assumes "(run_step cv)\<^sup>*\<^sup>* (Start d, s) c"
  shows "prefix (logs s) (logs (snd c)) \<and> prefix (calls s) (calls (snd c)) \<and>
         cwd (world (snd c)) = cwd (world s) \<and>
         (wf_world (world s) \<longrightarrow> wf_world (world (snd c))) \<and>
         (world (snd c) \<noteq> world s \<longrightarrow> (\<exists>ok. fst c = Done ok))"
proof -
  have "run_inv s c"
    using assms
  proof (induction rule: rtranclp_induct)
    case base then show ?case by (simp add: run_inv_def)
  next
    case (step y z) then show ?case by (blast intro: run_step_inv)
  qed
  then show ?thesis by (simp add: run_inv_def)
qed

theorem run_reach_invariant_witness:
  "(run_step demo_cv)\<^sup>*\<^sup>* (Start ''/photos'', demo_rt)
     (Loading [''/photos/a.jpg'', ''/photos/B.PNG''] :: nat phase, snd (scan_images ''/photos'' demo_rt)) \<and>
   prefix (logs demo_rt) (logs (snd (scan_images ''/photos'' demo_rt))) \<and>
   prefix (calls demo_rt) (calls (snd (scan_images ''/photos'' demo_rt))) \<and>
   cwd (world (snd (scan_images ''/photos'' demo_rt))) = cwd (world demo_rt) \<and>
   wf_world (world demo_rt) \<and> wf_world (world (snd (scan_images ''/photos'' demo_rt))) \<and>
   world (snd (scan_images ''/photos'' demo_rt)) = world demo_rt"
proof -
  have h: "(run_step demo_cv)\<^sup>*\<^sup>* (Start ''/photos'', demo_rt)
     (Loading [''/photos/a.jpg'', ''/photos/B.PNG''] :: nat phase, snd (scan_images ''/photos'' demo_rt))"
    using scan_found_demo by (rule r_into_rtranclp)
  have wf: "wf_world (world demo_rt)" by code_simp
  show ?thesis using run_reach_invariant [OF h] h wf by auto
qed

end
