(* ===== verification/Logging.thy ===== *)
theory Logging
  imports World
begin

text \<open>
  What the run prints. \<open>logging.basicConfig\<close> (\<open>src/main.py\<close>, line 9) sets the root
  logger to level \<open>INFO\<close> with the format
  \<open>'%(asctime)s - %(levelname)s - %(message)s'\<close>; each logging call of the program
  passes one of eight messages, three of them f-strings. \<open>msg_text\<close> is the text of each
  message, \<open>format_record\<close> the line the handler writes for a record, with the time
  stamp of \<open>logging.Formatter.formatTime\<close>
  (\<open>time.strftime('%Y-%m-%d %H:%M:%S')\<close> and \<open>',%03d'\<close> milliseconds).

  \<open>stderr_text\<close> is the stream the handler writes, each line ended by a newline;
  \<open>split_lines\<close> cuts it back into lines, and
  \<open>parse_log_line\<close> reads a printed line back into its time stamp, level and message:
  the round trip shows that the text of the log determines the run's log records, so
  the properties stated on \<open>logs\<close> are properties of what a user reads.
\<close>

section \<open>The format of line 9\<close>

definition levelname :: "level \<Rightarrow> string" where
  "levelname l = (case l of INFO \<Rightarrow> ''INFO'' | WARNING \<Rightarrow> ''WARNING'' | ERROR \<Rightarrow> ''ERROR'')"

definition level_no :: "level \<Rightarrow> nat" where
  "level_no l = (case l of INFO \<Rightarrow> 20 | WARNING \<Rightarrow> 30 | ERROR \<Rightarrow> 40)"

text \<open>\<open>basicConfig(level=logging.INFO)\<close>: a record is handled when its level is at least 20.\<close>

definition log_enabled :: "level \<Rightarrow> bool" where
  "log_enabled l \<longleftrightarrow> 20 \<le> level_no l"

record timestamp =
  year :: nat
  month :: nat
  day :: nat
  hour :: nat
  minute :: nat
  second :: nat
  msec :: nat

text \<open>\<open>%02d\<close>-style padding: zeros on the left up to the width, never truncating.\<close>

definition zero_pad :: "nat \<Rightarrow> nat \<Rightarrow> string" where
  "zero_pad w n = replicate (w - length (py_str_nat n)) CHR ''0'' @ py_str_nat n"

definition asctime :: "timestamp \<Rightarrow> string" where
  "asctime t =
     py_str_nat (year t) @ ''-'' @ zero_pad 2 (month t) @ ''-'' @ zero_pad 2 (day t) @ '' '' @
     zero_pad 2 (hour t) @ '':'' @ zero_pad 2 (minute t) @ '':'' @ zero_pad 2 (second t) @ '','' @
     zero_pad 3 (msec t)"

text \<open>The message argument of each logging call (lines 13, 19, 29, 32, 38, 49, 63, 73).\<close>

fun msg_text :: "msg \<Rightarrow> string" where
  "msg_text (MsgStitching n) = ''Stitching '' @ py_str_nat n @ '' images into a panorama.''"
| "msg_text MsgLoadFailed = ''One or more images could not be loaded.''"
| "msg_text (MsgStitchFailed st) = ''Failed to stitch images, error code: '' @ py_str_int st"
| "msg_text MsgPanoramaCreated = ''Panorama successfully created.''"
| "msg_text (MsgSaved f) = ''Panorama saved as '' @ f"
| "msg_text MsgNoImageFiles = ''No image files found in the directory.''"
| "msg_text MsgNoImagesExit = ''No images found to process. Exiting program.''"
| "msg_text MsgPanoramaFailed = ''Failed to create a panorama.''"

definition format_record :: "timestamp \<Rightarrow> level \<times> msg \<Rightarrow> string" where
  "format_record t r = asctime t @ '' - '' @ levelname (fst r) @ '' - '' @ msg_text (snd r)"

text \<open>The lines a run writes to standard error: one per handled record, with its time.\<close>

definition stderr_lines :: "timestamp list \<Rightarrow> (level \<times> msg) list \<Rightarrow> string list" where
  "stderr_lines ts rs = map (\<lambda>(t, r). format_record t r) (zip ts (filter (log_enabled \<circ> fst) rs))"

text \<open>
  The stream the handler writes: \<open>logging.StreamHandler.emit\<close> writes each formatted
  record followed by its terminator, a newline character (\<open>newline\<close>).
\<close>

definition newline :: char where
  "newline = CHR 0x0A"

definition stderr_text :: "timestamp list \<Rightarrow> (level \<times> msg) list \<Rightarrow> string" where
  "stderr_text ts rs = concat (map (\<lambda>l. l @ [newline]) (stderr_lines ts rs))"

text \<open>A time stamp for the examples.\<close>

definition demo_time :: timestamp where
  "demo_time = \<lparr>year = 2024, month = 5, day = 1, hour = 9, minute = 3, second = 7, msec = 42\<rparr>"

section \<open>Reading a line back\<close>

fun split_sep :: "string \<Rightarrow> (string \<times> string) option" where
  "split_sep [] = None"
| "split_sep (c # cs) =
     (if take 3 (c # cs) = '' - '' then Some ([], drop 3 (c # cs))
      else map_option (apfst ((#) c)) (split_sep cs))"

definition strip_prefix :: "string \<Rightarrow> string \<Rightarrow> string option" where
  "strip_prefix p s = (if prefix p s then Some (drop (length p) s) else None)"

definition strip_suffix :: "string \<Rightarrow> string \<Rightarrow> string option" where
  "strip_suffix p s = (if suffix p s then Some (take (length s - length p) s) else None)"

definition parse_level :: "string \<Rightarrow> level option" where
  "parse_level s =
     (if s = ''INFO'' then Some INFO else if s = ''WARNING'' then Some WARNING
      else if s = ''ERROR'' then Some ERROR else None)"

definition parse_msg :: "string \<Rightarrow> msg option" where
  "parse_msg s =
     (if s = ''One or more images could not be loaded.'' then Some MsgLoadFailed
      else if s = ''Panorama successfully created.'' then Some MsgPanoramaCreated
      else if s = ''No image files found in the directory.'' then Some MsgNoImageFiles
      else if s = ''No images found to process. Exiting program.'' then Some MsgNoImagesExit
      else if s = ''Failed to create a panorama.'' then Some MsgPanoramaFailed
      else case strip_prefix ''Panorama saved as '' s of
        Some f \<Rightarrow> Some (MsgSaved f)
      | None \<Rightarrow>
          (case strip_prefix ''Failed to stitch images, error code: '' s of
             Some c \<Rightarrow> map_option MsgStitchFailed (parse_int c)
           | None \<Rightarrow>
               (case strip_prefix ''Stitching '' s of
                  Some r \<Rightarrow>
                    (case strip_suffix '' images into a panorama.'' r of
                       Some k \<Rightarrow> map_option MsgStitching (parse_nat k)
                     | None \<Rightarrow> None)
                | None \<Rightarrow> None)))"

definition parse_log_line :: "string \<Rightarrow> (string \<times> level \<times> msg) option" where
  "parse_log_line l =
     (case split_sep l of
        None \<Rightarrow> None
      | Some (t, rest) \<Rightarrow>
          (case split_sep rest of
             None \<Rightarrow> None
           | Some (ln, m) \<Rightarrow>
               (case (parse_level ln, parse_msg m) of
                  (Some lv, Some mg) \<Rightarrow> Some (t, lv, mg)
                | _ \<Rightarrow> None)))"

text \<open>A reader of the stream splits it at each newline character, as \<open>str.splitlines\<close> does there.\<close>

fun lines_acc :: "string \<Rightarrow> string \<Rightarrow> string list" where
  "lines_acc cur [] = (if cur = [] then [] else [cur])"
| "lines_acc cur (c # cs) =
     (if c = newline then cur # lines_acc [] cs else lines_acc (cur @ [c]) cs)"

definition split_lines :: "string \<Rightarrow> string list" where
  "split_lines s = lines_acc [] s"

section \<open>Properties\<close>

lemma log_enabled_all [simp]: "log_enabled l"
  by (cases l) (simp_all add: log_enabled_def level_no_def)

lemma stderr_lines_all: "stderr_lines ts rs = map (\<lambda>(t, r). format_record t r) (zip ts rs)"
  by (simp add: stderr_lines_def comp_def)

lemma split_sep_no_space:
  "CHR '' '' \<notin> set a \<Longrightarrow> split_sep (a @ x) = map_option (apfst ((@) a)) (split_sep x)"
  by (induction a; cases "split_sep x") (auto simp: apfst_def map_prod_def split_beta)

lemma split_sep_sep [simp]: "split_sep (CHR '' '' # CHR ''-'' # CHR '' '' # b) = Some ([], b)"
  by simp

lemma is_digit_not_space: "is_digit c \<Longrightarrow> c \<noteq> CHR '' '' \<and> c \<noteq> CHR ''-''"
  by (auto simp: is_digit_def)

lemma py_str_nat_no_space: "CHR '' '' \<notin> set (py_str_nat n)"
  using py_str_nat_digits [of n] by (auto simp: list_all_iff dest: is_digit_not_space)

lemma zero_pad_digits: "list_all is_digit (zero_pad w n) \<and> zero_pad w n \<noteq> []"
  using py_str_nat_digits [of n] by (auto simp: zero_pad_def is_digit_def list_all_iff)

lemma zero_pad_no_space: "CHR '' '' \<notin> set (zero_pad w n)"
  using zero_pad_digits [of w n] by (auto simp: list_all_iff dest: is_digit_not_space)

lemma split_sep_asctime: "split_sep (asctime t @ '' - '' @ b) = Some (asctime t, b)"
proof -
  define a1 where "a1 = py_str_nat (year t) @ ''-'' @ zero_pad 2 (month t) @ ''-'' @ zero_pad 2 (day t)"
  define a2 where "a2 = zero_pad 2 (hour t) @ '':'' @ zero_pad 2 (minute t) @ '':'' @ zero_pad 2 (second t) @ '','' @
     zero_pad 3 (msec t)"
  have a: "asctime t = a1 @ CHR '' '' # a2" by (simp add: asctime_def a1_def a2_def)
  have s1: "CHR '' '' \<notin> set a1" by (simp add: a1_def py_str_nat_no_space zero_pad_no_space)
  have s2: "CHR '' '' \<notin> set a2" by (simp add: a2_def zero_pad_no_space)
  obtain d r where dr: "zero_pad 2 (hour t) = d # r" and d: "is_digit d"
    using zero_pad_digits [of 2 "hour t"] by (cases "zero_pad 2 (hour t)") auto
  have "a2 @ '' - '' @ b = d # (r @ '':'' @ zero_pad 2 (minute t) @ '':'' @ zero_pad 2 (second t) @ '','' @
     zero_pad 3 (msec t) @ '' - '' @ b)" by (simp add: a2_def dr)
  then have "split_sep (CHR '' '' # a2 @ '' - '' @ b) = map_option (apfst ((#) CHR '' '')) (split_sep (a2 @ '' - '' @ b))"
    using is_digit_not_space [OF d] by simp
  with s1 s2 show ?thesis
    unfolding a by (simp add: split_sep_no_space del: split_sep.simps)
qed

lemma levelname_no_space: "CHR '' '' \<notin> set (levelname l)"
  by (cases l) (simp_all add: levelname_def)

lemma parse_level_levelname [simp]: "parse_level (levelname l) = Some l"
  by (cases l) (simp_all add: levelname_def parse_level_def)

lemma strip_prefix_append [simp]: "strip_prefix p (p @ s) = Some s"
  by (simp add: strip_prefix_def)

lemma strip_suffix_append [simp]: "strip_suffix p (s @ p) = Some s"
  by (simp add: strip_suffix_def suffix_def)

lemma parse_msg_msg_text [simp]: "parse_msg (msg_text m) = Some m"
proof (cases m)
  case (MsgStitching n)
  have "strip_suffix '' images into a panorama.'' (py_str_nat n @ '' images into a panorama.'') = Some (py_str_nat n)"
    by (rule strip_suffix_append)
  with MsgStitching show ?thesis by (simp add: parse_msg_def strip_prefix_def del: strip_suffix_append)
next
  case (MsgStitchFailed st)
  then show ?thesis by (simp add: parse_msg_def strip_prefix_def)
next
  case (MsgSaved f)
  then show ?thesis by (simp add: parse_msg_def strip_prefix_def)
qed (simp_all add: parse_msg_def)

lemma parse_log_line_format_record [simp]:
  "parse_log_line (format_record t (l, m)) = Some (asctime t, l, m)"
proof -
  have "split_sep (levelname l @ '' - '' @ msg_text m) = Some (levelname l, msg_text m)"
    using levelname_no_space [of l] by (simp add: split_sep_no_space del: split_sep.simps)
  with split_sep_asctime [of t "levelname l @ '' - '' @ msg_text m"] show ?thesis
    by (simp add: parse_log_line_def format_record_def)
qed

lemma parse_format_records:
  "map parse_log_line (map (\<lambda>(t, r). format_record t r) (zip ts rs)) = map Some (zip (map asctime ts) rs)"
  by (induction ts arbitrary: rs) (auto simp: zip_Cons1 split: list.split)

lemma lines_acc_line:
  "newline \<notin> set l \<Longrightarrow> lines_acc cur (l @ newline # rest) = (cur @ l) # lines_acc [] rest"
  by (induction l arbitrary: cur) auto

lemma split_lines_terminated:
  "\<forall>l \<in> set ls. newline \<notin> set l \<Longrightarrow> split_lines (concat (map (\<lambda>l. l @ [newline]) ls)) = ls"
  by (induction ls) (simp_all add: split_lines_def lines_acc_line)

lemma newline_notin_py_str_nat [simp]: "CHR 0x0A \<notin> set (py_str_nat n)"
proof
  assume "CHR 0x0A \<in> set (py_str_nat n)"
  then have "is_digit (CHR 0x0A)" using py_str_nat_digits [of n] by (auto simp: list_all_iff)
  then show False by (simp add: is_digit_def)
qed

lemma newline_notin_py_str_int [simp]: "CHR 0x0A \<notin> set (py_str_int i)"
  by (simp add: py_str_int_def)

lemma newline_notin_format_record:
  "newline \<notin> set (msg_text m) \<Longrightarrow> newline \<notin> set (format_record t (l, m))"
  unfolding format_record_def
  by (cases l) (simp_all add: asctime_def zero_pad_def levelname_def newline_def)

lemma newline_notin_msg_text [simp]:
  "(\<forall>f. m \<noteq> MsgSaved f) \<Longrightarrow> newline \<notin> set (msg_text m)"
  by (cases m) (simp_all add: newline_def)

text \<open>
  The stream splits back into the handler's lines when no message spans two lines. The
  only message with a part the caller chooses is \<open>MsgSaved\<close>'s file name.
\<close>

lemma split_lines_stderr_text:
  assumes "\<forall>r \<in> set rs. newline \<notin> set (msg_text (snd r))"
  shows "split_lines (stderr_text ts rs) = stderr_lines ts rs"
proof -
  have "\<forall>l \<in> set (stderr_lines ts rs). newline \<notin> set l"
    using assms by (auto simp: stderr_lines_all dest!: set_zip_rightD intro!: newline_notin_format_record)
  then show ?thesis by (simp add: stderr_text_def split_lines_terminated)
qed

text \<open>
  C23. The printed log reads back (line 9 and the messages of lines 13--73): the lines
  the handler writes for a sequence of records, each with its time stamp, parse back to
  those time stamps, levels and messages, in order. The separator \<open>' - '\<close> may
  occur inside a file name; the time stamp and the level name never contain it, so the
  first two separators of a line are the format's own.
\<close>

theorem stderr_lines_roundtrip:
  "map parse_log_line (stderr_lines ts rs) = map Some (zip (map asctime ts) rs)"
  unfolding stderr_lines_all by (rule parse_format_records)

end
