(* ===== verification/Trace.thy ===== *)
theory Trace
  imports Pipeline Logging
begin

text \<open>
  What a whole run of \<open>main\<close> (\<open>src/main.py\<close>, lines 59--73) leaves behind beside
  the file system: the sequence of external calls and the log, printed in the format of
  line 9. \<open>run_effects\<close> lists the exit status, the calls and the records of each
  way a run ends (listing raised, no images, a file unreadable, engine failure, no
  raster, written), and \<open>main_effects\<close> proves that \<open>main\<close> computes them;
  \<open>main_trace\<close> reads off it the shape of every trace and log. The claims derive from
  it the order of the calls, their bounds, and what a user sees on standard error when
  no output was written, and that the stream a run prints splits into lines that read
  back into its records.
\<close>

text \<open>The longest run's calls: the listing, one read per discovered path, one engine call,
  one write.\<close>

definition full_trace :: "string \<Rightarrow> string list \<Rightarrow> call list" where
  "full_trace d fs = CallListdir d # map CallImread fs @ [CallStitch (length fs), CallImwrite output_file]"

text \<open>
  The effects of a run by outcome, read off the code: the exit status, the external
  calls, and the records logged, as a function of what the listing, the reads and the
  engine answer (\<open>spec_load\<close> is the all-or-nothing read of \<open>Stitch\<close>).
\<close>

definition run_effects ::
  "('b, 'img) cv2 \<Rightarrow> 'b world \<Rightarrow> string \<Rightarrow> exit_status \<times> call list \<times> (level \<times> msg) list" where
  "run_effects cv w d =
     (case listdir w d of
        Inl e \<Rightarrow> (Raised e, [CallListdir d], [])
      | Inr _ \<Rightarrow>
          (let fs = discovered w d; n = length fs; reads = CallListdir d # map CallImread fs in
           if fs = [] then (Returned, [CallListdir d], [(WARNING, MsgNoImageFiles), (ERROR, MsgNoImagesExit)])
           else case spec_load cv w fs of
             Inl _ \<Rightarrow> (Returned, reads, [(INFO, MsgStitching n), (ERROR, MsgLoadFailed), (ERROR, MsgPanoramaFailed)])
           | Inr imgs \<Rightarrow>
               (case stitch cv imgs of
                  (st, pano) \<Rightarrow>
                    if st \<noteq> stitcher_OK then
                      (Returned, reads @ [CallStitch n],
                       [(INFO, MsgStitching n), (ERROR, MsgStitchFailed st), (ERROR, MsgPanoramaFailed)])
                    else case pano of
                      None \<Rightarrow> (Returned, reads @ [CallStitch n],
                               [(INFO, MsgStitching n), (INFO, MsgPanoramaCreated), (ERROR, MsgPanoramaFailed)])
                    | Some p \<Rightarrow> (Returned, reads @ [CallStitch n, CallImwrite output_file],
                                 [(INFO, MsgStitching n), (INFO, MsgPanoramaCreated), (INFO, MsgSaved output_file)]))))"

section \<open>The trace of every run\<close>

lemma main_effects:
  "fst (main cv d s) = fst (run_effects cv (world s) d) \<and>
   calls (snd (main cv d s)) = calls s @ fst (snd (run_effects cv (world s) d)) \<and>
   logs (snd (main cv d s)) = logs s @ snd (snd (run_effects cv (world s) d))"
proof -
  let ?fs = "discovered (world s) d"
  let ?s1 = "record_calls [CallListdir d] s"
  show ?thesis
  proof (cases "listdir (world s) d")
    case (Inl e)
    then show ?thesis by (simp add: main_raised run_effects_def)
  next
    case (Inr names)
    show ?thesis
    proof (cases "?fs = []")
      case True
      with Inr have "filter is_image_name names = []" by (simp add: discovered_def)
      with Inr True show ?thesis by (simp add: main_no_files run_effects_def)
    next
      case ne: False
      show ?thesis
      proof (cases "spec_load cv (world s) ?fs")
        case (Inl p)
        then have "None \<in> imread cv (world ?s1) ` set ?fs"
          using spec_load_Inl by force
        with Inr ne Inl show ?thesis
          by (simp add: main_discovered create_panorama_load_fail run_effects_def Let_def)
      next
        case (Inr imgs)
        obtain st pano where r: "stitch cv imgs = (st, pano)" by fastforce
        from main_loaded [OF refl ne Inr r] \<open>listdir (world s) d = Inr names\<close> ne Inr r show ?thesis
          by (cases pano) (simp_all add: run_effects_def Let_def)
      qed
    qed
  qed
qed

lemma main_trace:
  obtains cs ls where
    "calls (snd (main cv d s)) = calls s @ cs" "logs (snd (main cv d s)) = logs s @ ls"
    "prefix cs (full_trace d (discovered (world s) d))"
    "length ls \<le> 3"
    "fst (main cv d s) = Returned \<Longrightarrow> CallImwrite output_file \<notin> set cs \<Longrightarrow>
       ls \<noteq> [] \<and> fst (last ls) = ERROR \<and> snd (last ls) \<in> {MsgNoImagesExit, MsgPanoramaFailed}"
proof -
  obtain x cs ls where r: "run_effects cv (world s) d = (x, cs, ls)" by (cases "run_effects cv (world s) d") auto
  have "prefix cs (full_trace d (discovered (world s) d)) \<and> length ls \<le> 3 \<and>
        (x = Returned \<longrightarrow> CallImwrite output_file \<notin> set cs \<longrightarrow>
           ls \<noteq> [] \<and> fst (last ls) = ERROR \<and> snd (last ls) \<in> {MsgNoImagesExit, MsgPanoramaFailed})"
    using r by (auto simp: run_effects_def full_trace_def Let_def
                     split: sum.splits if_splits prod.splits option.splits)
  with main_effects [of cv d s] r show thesis by (intro that [of cs ls]) auto
qed

lemma last_stderr_lines:
  "length ts = length rs \<Longrightarrow> rs \<noteq> [] \<Longrightarrow> last (stderr_lines ts rs) = format_record (last ts) (last rs)"
  unfolding stderr_lines_all by (induction ts rs rule: list_induct2) auto

section \<open>Properties of the run\<close>

text \<open>
  C24. Calls happen in the code's order (spec 4.2, 4.3): the external calls a run makes
  are a prefix of the listing, then the reads of the discovered paths in discovery
  order, then one engine call, then one write of \<open>panorama_output.jpg\<close>; no call is
  repeated, none comes out of order, and the engine never sees a file read later.
\<close>

theorem main_calls_in_order:
  "\<exists>cs. calls (snd (main cv d s)) = calls s @ cs \<and>
        prefix cs (CallListdir d # map CallImread (discovered (world s) d) @
                   [CallStitch (length (discovered (world s) d)), CallImwrite output_file])"
proof -
  obtain cs where "calls (snd (main cv d s)) = calls s @ cs" "prefix cs (full_trace d (discovered (world s) d))"
    by (rule main_trace)
  then show ?thesis by (auto simp: full_trace_def)
qed

text \<open>
  C25. Bounds of a run: a run adds at most three log records, and at most three external
  calls beyond one read per discovered image.
\<close>

theorem main_bounds:
  "length (logs (snd (main cv d s))) \<le> length (logs s) + 3 \<and>
   length (calls (snd (main cv d s))) \<le> length (calls s) + length (discovered (world s) d) + 3"
proof -
  obtain cs ls where "calls (snd (main cv d s)) = calls s @ cs" "logs (snd (main cv d s)) = logs s @ ls"
    "prefix cs (full_trace d (discovered (world s) d))" "length ls \<le> 3"
    by (rule main_trace)
  moreover have "length (full_trace d (discovered (world s) d)) = length (discovered (world s) d) + 3"
    by (simp add: full_trace_def)
  ultimately show ?thesis by (auto dest: prefix_length_le)
qed

text \<open>
  C26. A run that returns without writing says so last (spec 7: the run reports which
  stage failed): when \<open>main\<close> returns and made no write, the last line it printed
  parses as an \<open>ERROR\<close> record saying either that no images were found or that no
  panorama was created. (A run whose write failed ends with the info line of C7.)
\<close>

theorem main_failure_reported:
  assumes "fst (main cv d s) = Returned"
    "CallImwrite output_file \<notin> set (drop (length (calls s)) (calls (snd (main cv d s))))"
    "length ts = length (logs (snd (main cv d s)))"
  shows "\<exists>t m. parse_log_line (last (stderr_lines ts (logs (snd (main cv d s))))) = Some (t, ERROR, m) \<and>
               m \<in> {MsgNoImagesExit, MsgPanoramaFailed}"
proof -
  obtain cs ls where c: "calls (snd (main cv d s)) = calls s @ cs" and l: "logs (snd (main cv d s)) = logs s @ ls"
    and e: "fst (main cv d s) = Returned \<Longrightarrow> CallImwrite output_file \<notin> set cs \<Longrightarrow>
       ls \<noteq> [] \<and> fst (last ls) = ERROR \<and> snd (last ls) \<in> {MsgNoImagesExit, MsgPanoramaFailed}"
    by (rule main_trace) blast
  from assms(2) c have "CallImwrite output_file \<notin> set cs" by simp
  with e assms(1) have ls: "ls \<noteq> []" "fst (last ls) = ERROR" "snd (last ls) \<in> {MsgNoImagesExit, MsgPanoramaFailed}"
    by auto
  with l have "logs (snd (main cv d s)) \<noteq> []" "last (logs (snd (main cv d s))) = (ERROR, snd (last ls))"
    by (auto simp: prod_eq_iff)
  with last_stderr_lines [OF assms(3)] ls(3) show ?thesis by auto
qed

theorem main_failure_reported_witness:
  "fst (main demo_cv ''/single'' demo_rt) = Returned \<and>
   CallImwrite output_file \<notin> set (drop (length (calls demo_rt)) (calls (snd (main demo_cv ''/single'' demo_rt)))) \<and>
   length [demo_time, demo_time, demo_time] = length (logs (snd (main demo_cv ''/single'' demo_rt))) \<and>
   (\<exists>t m. parse_log_line (last (stderr_lines [demo_time, demo_time, demo_time]
              (logs (snd (main demo_cv ''/single'' demo_rt))))) = Some (t, ERROR, m) \<and>
          m \<in> {MsgNoImagesExit, MsgPanoramaFailed})"
proof -
  have h1: "fst (main demo_cv ''/single'' demo_rt) = Returned" by code_simp
  have h2: "CallImwrite output_file \<notin> set (drop (length (calls demo_rt)) (calls (snd (main demo_cv ''/single'' demo_rt))))"
    by code_simp
  have h3: "length [demo_time, demo_time, demo_time] = length (logs (snd (main demo_cv ''/single'' demo_rt)))"
    by code_simp
  show ?thesis using main_failure_reported [OF h1 h2 h3] h1 h2 h3 by blast
qed


lemma run_effects_one_line:
  "\<forall>r \<in> set (snd (snd (run_effects cv w d))). newline \<notin> set (msg_text (snd r))"
  by (simp add: run_effects_def Let_def output_file_def newline_def
      split: sum.split prod.split option.split)

text \<open>
  C32. What a run prints reads back into what it logged: the text the handler writes to
  standard error for the records a run of \<open>main\<close> adds, each followed by
  a newline, splits into lines that parse back to those records, in order, with their
  time stamps. No message of the program spans two lines: the only file name a message
  carries is \<open>panorama_output.jpg\<close>, and the numbers print as digits.
\<close>

theorem main_printed_log_roundtrip:
  "map parse_log_line (split_lines (stderr_text ts (drop (length (logs s)) (logs (snd (main cv d s)))))) =
   map Some (zip (map asctime ts) (drop (length (logs s)) (logs (snd (main cv d s)))))"
proof -
  have e: "drop (length (logs s)) (logs (snd (main cv d s))) = snd (snd (run_effects cv (world s) d))"
    using main_effects [of cv d s] by simp
  show ?thesis
    unfolding e split_lines_stderr_text [OF run_effects_one_line] stderr_lines_all
    by (rule parse_format_records)
qed

end
