(* ===== verification/Contract.thy ===== *)
theory Contract
  imports Trace
begin

text \<open>
  The contract of a whole run (spec 7, 8). \<open>spec_run\<close> is the specification's
  pipeline as one function: discovery, all-or-nothing load, one engine call read through
  \<open>assemble\<close>, and the write, ending in one of the outcomes of the error taxonomy of
  spec 7 or in a completed run. \<open>observe\<close> is what a user can tell from a run of the
  code: the exit status and the log records the run added, classified by the last of
  them. The refinement theorem says that what the code shows is the specification's
  outcome, up to exactly two losses: the path of a \<open>LoadError\<close>, which the code's
  message does not carry, and a \<open>WriteError\<close>, which the code logs as a success.
\<close>

datatype run_outcome =
    InputError
  | LoadError string
  | StitchError stitch_error
  | WriteError
  | Completed

definition spec_run :: "('b, 'img) cv2 \<Rightarrow> 'b world \<Rightarrow> string \<Rightarrow> run_outcome" where
  "spec_run cv w d =
     (let fs = discovered w d in
      if fs = [] then InputError
      else case spec_load cv w fs of
        Inl p \<Rightarrow> LoadError p
      | Inr imgs \<Rightarrow>
          (case assemble cv imgs of
             Failure e \<Rightarrow> StitchError e
           | Success p \<Rightarrow> if fst (imwrite cv output_file p w) then Completed else WriteError))"

text \<open>The outcome a log tells, read from its last records (most recent first).\<close>

fun classify_log :: "(level \<times> msg) list \<Rightarrow> run_outcome option" where
  "classify_log ((ERROR, MsgNoImagesExit) # _) = Some InputError"
| "classify_log ((ERROR, MsgPanoramaFailed) # (ERROR, MsgLoadFailed) # _) = Some (LoadError [])"
| "classify_log ((ERROR, MsgPanoramaFailed) # (ERROR, MsgStitchFailed st) # _) =
     Some (StitchError (status_error st))"
| "classify_log ((ERROR, MsgPanoramaFailed) # (INFO, MsgPanoramaCreated) # _) =
     Some (StitchError (status_error stitcher_OK))"
| "classify_log ((INFO, MsgSaved _) # _) = Some Completed"
| "classify_log _ = None"

text \<open>An uncaught exception from the listing ends the run before any image is read: the
  user sees it as a failure of the input.\<close>

definition observe :: "exit_status \<Rightarrow> (level \<times> msg) list \<Rightarrow> run_outcome option" where
  "observe x ls = (case x of Raised _ \<Rightarrow> Some InputError | Returned \<Rightarrow> classify_log (rev ls))"

text \<open>What of an outcome the code's log can carry.\<close>

fun observable :: "run_outcome \<Rightarrow> run_outcome" where
  "observable (LoadError _) = LoadError []"
| "observable WriteError = Completed"
| "observable r = r"

section \<open>Refinement\<close>

text \<open>
  C29. The code refines the specification's run (spec 7, 8): for every engine, codec,
  file system and input directory, the outcome a user reads from the exit status and the
  log of \<open>main\<close> is the outcome of \<open>spec_run\<close>, with the failing path of a load
  error erased and a write error shown as a completed run; no other outcome is lost or
  confused.
\<close>

theorem main_refines_spec_run:
  "observe (fst (main cv d s)) (drop (length (logs s)) (logs (snd (main cv d s)))) =
   Some (observable (spec_run cv (world s) d))"
proof -
  obtain x cs ls where r: "run_effects cv (world s) d = (x, cs, ls)" by (cases "run_effects cv (world s) d") auto
  with main_effects [of cv d s] have m: "fst (main cv d s) = x"
    "drop (length (logs s)) (logs (snd (main cv d s))) = ls" by auto
  have "observe x ls = Some (observable (spec_run cv (world s) d))"
  proof (cases "listdir (world s) d")
    case (Inl e)
    then have "discovered (world s) d = []" by (simp add: discovered_def)
    with Inl r show ?thesis by (auto simp: run_effects_def spec_run_def observe_def)
  next
    case (Inr names)
    show ?thesis
    proof (cases "spec_load cv (world s) (discovered (world s) d)")
      case (Inl p)
      with Inr r show ?thesis by (auto simp: run_effects_def spec_run_def observe_def Let_def)
    next
      case ld: (Inr imgs)
      obtain st pano where st: "stitch cv imgs = (st, pano)" by fastforce
      from Inr ld r st assemble_status [OF st] show ?thesis
        by (cases "st = stitcher_OK"; cases pano)
           (auto simp: run_effects_def spec_run_def observe_def Let_def simp del: status_error.simps)
    qed
  qed
  with m show ?thesis by simp
qed

end
