(* ===== verification/Spec2Isabelle.thy ===== *)
theory Spec2Isabelle
  imports Run Contract
begin

text \<open>
  \<^bold>\<open>img2panorama in Isabelle/HOL.\<close>
  The program (\<open>src/main.py\<close>, 76 lines of Python) builds one panorama from the
  images of a directory: \<open>scan_images\<close> lists the directory and keeps the names with
  an image extension; \<open>create_panorama\<close> reads them all with \<open>cv2.imread\<close>, gives
  up when one is unreadable, and otherwise calls OpenCV's stitcher once; \<open>main\<close> stops
  when nothing was found and writes a produced panorama with \<open>save_image\<close>
  (\<open>cv2.imwrite\<close>) to \<open>panorama_output.jpg\<close> in the working directory. Every step
  logs through \<open>logging\<close>. The functions run one after the other in one process and
  share nothing but the file system.

  \<^bold>\<open>Library layout.\<close>
  \<^item> \<open>Prelude\<close>: fact collections, lemmas on lists of options (Python's
    \<open>any(x is None ...)\<close>), on association lists updated in place or at the end
    (\<open>put_entry\<close>), and on deterministic relations.
  \<^item> \<open>Py_Str\<close>: the Python library calls \<open>scan_images\<close> is built from:
    \<open>str.lower\<close> (\<open>py_lower\<close>), \<open>str.endswith\<close> with a tuple
    (\<open>py_endswith_any\<close>), \<open>os.path.join\<close> (\<open>posix_join\<close>) and
    \<open>os.path.split\<close> (\<open>posix_split\<close>), each as the CPython/posixpath code computes
    it, with their link to the library's \<open>suffix\<close>.
  \<^item> \<open>World\<close>: the environment and the run state. The file system is a record of
    the working directory and an association list of directories, each an ordered list of
    named entries (file bytes or subdirectories) with a write and a read permission;
    \<open>listdir\<close>,
    \<open>imread\<close>, \<open>imwrite\<close> are \<open>os.listdir\<close>, \<open>cv2.imread\<close>,
    \<open>cv2.imwrite\<close> on it. The cv2 capability (record \<open>cv2\<close>: \<open>decode\<close>,
    \<open>encode\<close>, \<open>stitch\<close>) is a parameter of every operation, over the type
    variables \<open>'b\<close> (file bytes) and \<open>'img\<close> (rasters), so every lemma holds for
    every codec and every stitching engine. The run state \<open>rt\<close> threads the file
    system, the log (level and message, with the values the f-strings print) and the
    trace of external calls. The test doubles \<open>demo_cv\<close>, \<open>demo_rt\<close>,
    \<open>demo_cwd_rt\<close> are the witnesses' inputs.
  \<^item> \<open>Scan\<close>: \<open>scan_images\<close> (lines 40--51).
  \<^item> \<open>Stitch\<close>: \<open>load_images\<close> (line 16), \<open>create_panorama\<close> (lines 11--33),
    and the specification's \<open>spec_load\<close>, \<open>assemble\<close> and \<open>stitch_result\<close>.
  \<^item> \<open>Writer\<close>: \<open>save_image\<close> (lines 35--38).
  \<^item> \<open>Pipeline\<close>: \<open>main\<close> after its argument parsing (lines 59--73) and the exit
    status (lines 75--76).
  \<^item> \<open>Run\<close>: the same control flow as an \<open>inductive\<close> step relation
    \<open>run_step\<close> over phases carrying the paths, the images and the panorama; the
    specification's state graph and the map of phases onto it.
  \<^item> \<open>Logging\<close>: what the run prints. The handler format of line 9
    (\<open>asctime - levelname - message\<close>, with \<open>formatTime\<close>'s time stamp), the text
    of each of the eight messages (\<open>msg_text\<close>, with \<open>str\<close> of an integer from
    \<open>Py_Str\<close>), the level threshold \<open>INFO\<close>, the stream the handler writes
    (\<open>stderr_text\<close>, each line followed by a newline), and readers of the stream and of
    its lines.
  \<^item> \<open>Trace\<close>: a whole run of \<open>main\<close> seen through its external calls and its
    printed log. \<open>run_effects\<close> lists the exit status, calls and records of each way a
    run ends, and \<open>main_effects\<close> proves that \<open>main\<close> computes it; the lemmas on
    the trace and the log of a run are read off it.
  \<^item> \<open>Contract\<close>: the specification's whole run (\<open>spec_run\<close>, ending in an
    outcome of the error taxonomy of spec 7 or a completed run) and what a user can
    tell from a run of the code (\<open>observe\<close>: the exit status and the log records
    the run added).
  \<^item> \<open>Spec2Isabelle\<close>: this overview.

  \<^bold>\<open>What is proved.\<close>
  Loading is all-or-nothing and a failure never reaches the engine (C1, C9, C22); the
  engine is called at most once, after all reads, with the images in input order (C2,
  C4, C24); an engine failure keeps its exact status in the log (C3, C10); the
  returned value is the specification's load followed by its assembly (C5); a
  successful write leaves the encoder's bytes under the name, and reading them back
  gives their decoding (C6, C11); a run changes only the directory it writes to (C13);
  a run without images ends with the two error records and no engine call (C8);
  discovery selects exactly the case-insensitive extensions, in listing order, and its
  paths resolve to the listed entries (C16, C17); the step relation never goes back,
  takes at most four steps and follows the specification's graph (C18--C20), and every
  run of it reaches a final phase, whatever the engine answers (C27); the lemma
  \<open>run_refines_main\<close> (theory \<open>Run\<close>) shows that it computes exactly
  \<open>main\<close>, so these are properties of \<open>main\<close>. A second run gives the same
  file system unless the input directory is the working directory (C14); when it is,
  the next discovery lists the previous output as one more image (C15). The printed
  log reads back into the records it prints, line by line (C23) and as the stream a run
  of \<open>main\<close> writes to standard error, whose messages never span two lines (C32),
  so the properties stated on the log records are properties of what a user reads. The
  external calls come in the code's order (C24), and a run adds at most three records
  and three calls beyond one read per image (C25); a run that returns without writing
  ends with an error line naming the stage (C26). A file given as the input directory
  ends the run with an uncaught \<open>NotADirectoryError\<close> (C28). What a user reads
  from a run's exit status and log is the specification's outcome, up to the path of a
  load error and a write error reported as a success (C29). Along every run of the step
  relation the log and trace only grow and the file system changes only at the final
  write (C30). Discovery selects exactly the names whose \<open>os.path.splitext\<close>
  extension is supported, plus dot-only names such as \<open>.png\<close> (C31).

  \<^bold>\<open>Where the code and the specification part.\<close>
  The load error does not name the file (C1); \<open>create_panorama\<close> returns
  \<open>None\<close> for every failure and the engine's status survives only in the log (C3);
  a failed \<open>cv2.imwrite\<close> is logged as saved (C7); every failure except an
  \<open>os.listdir\<close> exception exits with status 0 (C12); the output is JPEG, so
  reading it back gives the panorama only for a lossless codec (C6, C11); a second run
  in the working directory stitches the previous output (C15); a file given as the
  input directory raises an uncaught \<open>NotADirectoryError\<close> (C28); an \<open>OK\<close>
  status without a raster is logged as success and then as failure (C21); a
  subdirectory named like an image fails the whole run (C22); a hidden file named
  \<open>.png\<close> or \<open>..jpg\<close>, which \<open>os.path.splitext\<close> says has no extension, is
  selected as an image (C31). C29 shows that the lost path of a load error and the write
  error logged as a success are the only places where the log loses part of the
  specification's outcome.

  \<^bold>\<open>Bounds.\<close>
  The program has no loop but list comprehensions, modelled by \<open>map\<close> and
  \<open>filter\<close>; every definition is structurally recursive, or (\<open>py_str_nat\<close>)
  recursive on \<open>n div 10\<close> with its termination proved, so no fuel is needed, and
  every definition is executable (witnesses evaluate by \<open>simp\<close> and
  \<open>code_simp\<close>). A run has at most four steps (C19), adds at most three log
  records, and makes at most three calls beyond one read per discovered image (C25).

  \<^bold>\<open>Not modelled.\<close>
  \<open>argparse\<close> (lines 55--57): \<open>main\<close> takes the input directory itself. The
  specification leaves command-line parsing out as glue, and what \<open>parse_args\<close>
  accepts (abbreviated options, \<open>-ifoo\<close>, \<open>--\<close>, values starting with a dash)
  is library behaviour that differs between Python versions, so no single model of it
  would be faithful; every outcome of it that reaches line 60 is a string, which is what
  \<open>main\<close> takes. The clock: the time stamp of a record is a parameter
  (\<open>timestamp\<close>), and \<open>%Y\<close> is printed without padding, as glibc does.
  OpenCV's algorithms: the engine and the codecs are parameters. \<open>str.lower\<close>
  beyond ASCII: no non-ASCII character lowers to a character of \<open>.jpg\<close>,
  \<open>.jpeg\<close> or \<open>.png\<close>, so the selection is the same.
  Path aliasing other than \<open>.\<close> and trailing separators (symbolic links,
  \<open>..\<close>). Of the permissions, a directory's read permission (for
  \<open>os.listdir\<close>, whose \<open>PermissionError\<close> is modelled) and write permission (for
  \<open>cv2.imwrite\<close>, which needs it to create the output but not to overwrite an
  existing one, as \<open>open(O_CREAT|O_TRUNC)\<close>) are modelled; the search
  permission and a file's own read and write permissions are not, so \<open>cv2.imread\<close> of a listed file only fails on its
  contents and overwriting an existing output is always permitted.
  \<open>os.listdir\<close> raises \<open>PermissionError\<close>, \<open>FileNotFoundError\<close> and
  \<open>NotADirectoryError\<close> here. An I/O error in the middle
  of \<open>cv2.imwrite\<close> (a full disk), which can leave a truncated output file, is folded
  into a refused write that changes nothing: the outcome depends on OpenCV's encoder
  internals, which the program does not control.
  \<open>cv2.imwrite\<close>'s exception for an unknown extension: the code only writes
  \<open>.jpg\<close>. \<open>cv2.error\<close> raised from inside \<open>stitcher.stitch\<close> (an OpenCV
  assertion, memory exhaustion): the engine is a function answering a status and an
  optional raster; the code catches no exception, so such a run would end with a
  traceback like the \<open>os.listdir\<close> errors. The program has no concurrency.
\<close>

end
